theory Spec2Isabelle
  imports Complex_Main
begin

section \<open>JavaScript values\<close>

text \<open>
  A request body is what the JSON body parser hands over: \<open>undefined\<close> where a property is
  absent, \<open>null\<close>, booleans, Numbers, strings, arrays and plain objects. A finite Number
  is given by its exact rational value (\<open>-0\<close> and \<open>+0\<close> are not told apart: nothing in the
  controllers distinguishes them); an object is the list of its own properties, the first
  entry for a name being the property.
\<close>

datatype jsnum = Finite rat | NaN | PosInfinity | NegInfinity

datatype jsval =
    JUndefined
  | JNull
  | JBool bool
  | JNum jsnum
  | JStr string
  | JArr "jsval list"
  | JObj "(string \<times> jsval) list"

text \<open>
  A template literal is kept as its parts: the literal chunks and the interpolated values.
  The text of a message is determined by the parts; \<open>render\<close> computes it where every
  interpolated value is a string, \<open>undefined\<close>, \<open>null\<close> or a boolean.
\<close>

datatype part = Lit string | Interp jsval

text \<open>
  What a middleware can hand to the error path: the object \<open>{status, message}\<close> given to
  \<open>next\<close>, or a \<open>TypeError\<close> thrown while it runs (Express passes a thrown exception to
  the error handler; it carries no \<open>status\<close>).
\<close>

datatype failure = Error nat "part list" | TypeError

definition and_then :: "failure + 'a \<Rightarrow> ('a \<Rightarrow> failure + 'b) \<Rightarrow> failure + 'b" where
  "and_then r f = (case r of Inl e \<Rightarrow> Inl e | Inr v \<Rightarrow> f v)"

text \<open>ToBoolean, as applied by \<open>if (v)\<close> and \<open>!v\<close>.\<close>

fun truthy :: "jsval \<Rightarrow> bool" where
  "truthy JUndefined = False"
| "truthy JNull = False"
| "truthy (JBool b) = b"
| "truthy (JNum (Finite q)) = (q \<noteq> 0)"
| "truthy (JNum NaN) = False"
| "truthy (JNum PosInfinity) = True"
| "truthy (JNum NegInfinity) = True"
| "truthy (JStr s) = (s \<noteq> [])"
| "truthy (JArr xs) = True"
| "truthy (JObj kvs) = True"

text \<open>\<open>Number.isInteger(v)\<close>: a Number that is finite and integral; no coercion.\<close>

fun isInteger :: "jsval \<Rightarrow> bool" where
  "isInteger (JNum (Finite q)) = (frac q = 0)"
| "isInteger v = False"

text \<open>\<open>Array.isArray(v)\<close>.\<close>

fun isArray :: "jsval \<Rightarrow> bool" where
  "isArray (JArr xs) = True"
| "isArray v = False"

text \<open>
  Reading a property \<open>v[p]\<close>, also as done by a destructuring pattern \<open>{p} = v\<close>. On
  \<open>undefined\<close> and \<open>null\<close> it throws. The controllers read only the names \<open>data\<close>,
  \<open>id\<close>, \<open>name\<close>, \<open>description\<close>, \<open>price\<close>, \<open>image_url\<close>, \<open>deliverTo\<close>,
  \<open>mobileNumber\<close>, \<open>status\<close>, \<open>dishes\<close> and \<open>quantity\<close>: none of them is inherited
  from a prototype, an array index or \<open>length\<close>, so on anything but a plain object
  the result is \<open>undefined\<close>.
\<close>

fun get :: "jsval \<Rightarrow> string \<Rightarrow> failure + jsval" where
  "get JUndefined p = Inl TypeError"
| "get JNull p = Inl TypeError"
| "get (JObj kvs) p = Inr (case map_of kvs p of Some v \<Rightarrow> v | None \<Rightarrow> JUndefined)"
| "get v p = Inr JUndefined"

text \<open>\<open>const { data = {} } = req.body\<close>: the default applies to \<open>undefined\<close> only.\<close>

definition destructure_data :: "jsval \<Rightarrow> failure + jsval" where
  "destructure_data b =
     and_then (get b ''data'') (\<lambda>d. Inr (if d = JUndefined then JObj [] else d))"

text \<open>\<open>const { data: { p } = {} } = req.body\<close>.\<close>

definition data_get :: "jsval \<Rightarrow> string \<Rightarrow> failure + jsval" where
  "data_get b p = and_then (destructure_data b) (\<lambda>d. get d p)"

text \<open>
  ToString and ToPrimitive of a value from a JSON body throw exactly where a plain object
  has an own property \<open>toString\<close> (it shadows \<open>Object.prototype.toString\<close> and is not
  callable); an array joins the conversions of its elements.
\<close>

fun throws :: "jsval \<Rightarrow> bool" where
  "throws (JObj kvs) = (''toString'' \<in> set (map fst kvs))"
| "throws (JArr xs) = (\<exists>x \<in> set xs. throws x)"
| "throws v = False"

text \<open>
  ToNumber. The Number that a string denotes (and so the one an array converts to) is not
  computed here: the result is \<open>None\<close>, some Number.
\<close>

fun ToNumber :: "jsval \<Rightarrow> failure + jsnum option" where
  "ToNumber JUndefined = Inr (Some NaN)"
| "ToNumber JNull = Inr (Some (Finite 0))"
| "ToNumber (JBool b) = Inr (Some (Finite (if b then 1 else 0)))"
| "ToNumber (JNum n) = Inr (Some n)"
| "ToNumber (JStr s) = Inr None"
| "ToNumber (JArr xs) = (if throws (JArr xs) then Inl TypeError else Inr None)"
| "ToNumber (JObj kvs) = (if throws (JObj kvs) then Inl TypeError else Inr (Some NaN))"

text \<open>The comparisons \<open>n <= q\<close> and \<open>n < q\<close> of Numbers; with \<open>NaN\<close> both are false.\<close>

fun num_le :: "jsnum \<Rightarrow> rat \<Rightarrow> bool" where
  "num_le (Finite p) q = (p \<le> q)"
| "num_le NaN q = False"
| "num_le PosInfinity q = False"
| "num_le NegInfinity q = True"

fun num_less :: "jsnum \<Rightarrow> rat \<Rightarrow> bool" where
  "num_less (Finite p) q = (p < q)"
| "num_less NaN q = False"
| "num_less PosInfinity q = False"
| "num_less NegInfinity q = True"

text \<open>
  \<open>v <= q\<close> and \<open>v < q\<close> with a Number literal on the right: the left operand is converted
  by ToNumber. The answer is \<open>None\<close> where the conversion is left open.
\<close>

definition js_le :: "jsval \<Rightarrow> rat \<Rightarrow> failure + bool option" where
  "js_le v q = and_then (ToNumber v) (\<lambda>n. Inr (map_option (\<lambda>x. num_le x q) n))"

definition js_less :: "jsval \<Rightarrow> rat \<Rightarrow> failure + bool option" where
  "js_less v q = and_then (ToNumber v) (\<lambda>n. Inr (map_option (\<lambda>x. num_less x q) n))"

text \<open>The text of a message, where no Number, array or object is interpolated.\<close>

fun render :: "part list \<Rightarrow> string option" where
  "render [] = Some []"
| "render (Lit s # ps) = map_option (\<lambda>t. s @ t) (render ps)"
| "render (Interp (JStr s) # ps) = map_option (\<lambda>t. s @ t) (render ps)"
| "render (Interp JUndefined # ps) = map_option (\<lambda>t. ''undefined'' @ t) (render ps)"
| "render (Interp JNull # ps) = map_option (\<lambda>t. ''null'' @ t) (render ps)"
| "render (Interp (JBool b) # ps) =
     map_option (\<lambda>t. (if b then ''true'' else ''false'') @ t) (render ps)"
| "render (Interp v # ps) = None"

section \<open>The ID generator\<close>

text \<open>
  Modelled from the spec: the module \<open>utils/nextId\<close> that both controllers require is not
  among the sources. The spec has it compute one more than the highest existing numeric ID
  across the target collection, falling back to 1 if the collection is empty, and return it
  as a string. An ID is numeric when it is a non-empty string of decimal digits.
\<close>

fun digits :: "nat \<Rightarrow> string" where
  "digits n = (if n < 10 then [char_of (48 + n)]
               else digits (n div 10) @ [char_of (48 + n mod 10)])"

declare digits.simps [simp del]

definition is_digit :: "char \<Rightarrow> bool" where
  "is_digit c = (48 \<le> (of_char c :: nat) \<and> (of_char c :: nat) \<le> 57)"

definition id_number :: "string \<Rightarrow> nat option" where
  "id_number s =
     (if s \<noteq> [] \<and> list_all is_digit s
      then Some (foldl (\<lambda>a c. 10 * a + (of_char c - 48)) 0 s) else None)"

definition highest :: "string list \<Rightarrow> nat" where
  "highest ids = foldr max (List.map_filter id_number ids) 0"

definition nextId :: "string list \<Rightarrow> string" where
  "nextId ids = digits (Suc (highest ids))"


section \<open>Requests, middleware and chains\<close>

text \<open>
  A request carries the route parameter (\<open>req.params.dishId\<close> or \<open>req.params.orderId\<close>)
  and the parsed body. \<open>res.locals.dish\<close> and \<open>res.locals.order\<close> hold a reference to
  an object of the collection: here the position of that object in the array, \<open>None\<close>
  while nothing has been stored.

  A middleware either calls \<open>next()\<close>, or hands a failure to the error path, or sends the
  response. Each export of a controller is an array of middleware; \<open>run\<close> is the route
  dispatch: it goes on to the following function only after \<open>next()\<close>.
\<close>

record req =
  params :: string
  body :: jsval

datatype 'r signal = Next "nat option" | Fail failure | Send nat "'r option"

datatype 'r outcome = Failed failure | Replied nat "'r option" | Unhandled

type_synonym 'r middleware = "req \<Rightarrow> nat option \<Rightarrow> 'r list \<Rightarrow> 'r signal \<times> 'r list"

fun run :: "'r middleware list \<Rightarrow> req \<Rightarrow> nat option \<Rightarrow> 'r list \<Rightarrow> 'r outcome \<times> 'r list" where
  "run [] rq l s = (Unhandled, s)"
| "run (m # ms) rq l s =
     (case m rq l s of
        (Next l', s') \<Rightarrow> run ms rq l' s'
      | (Fail e, s') \<Rightarrow> (Failed e, s')
      | (Send c r, s') \<Rightarrow> (Replied c r, s'))"

text \<open>The validating middleware only read the collection.\<close>

definition check :: "(req \<Rightarrow> nat option \<Rightarrow> 'r list \<Rightarrow> 'r signal) \<Rightarrow> 'r middleware" where
  "check v rq l s = (v rq l s, s)"

text \<open>
  \<open>next({ status, message })\<close> with a template literal for the message: building the string
  throws where an interpolated value cannot be converted.
\<close>

definition next_error :: "nat \<Rightarrow> part list \<Rightarrow> 'r signal" where
  "next_error st ps =
     (if \<exists>p \<in> set ps. case p of Interp v \<Rightarrow> throws v | Lit s \<Rightarrow> False
      then Fail TypeError else Fail (Error st ps))"

text \<open>\<open>array.findIndex(pred)\<close>; \<open>array.find(pred)\<close> is the element at that index.\<close>

fun findIndex :: "('a \<Rightarrow> bool) \<Rightarrow> 'a list \<Rightarrow> nat option" where
  "findIndex P [] = None"
| "findIndex P (x # xs) = (if P x then Some 0 else map_option Suc (findIndex P xs))"

text \<open>The object that \<open>res.locals\<close> refers to, \<open>None\<close> for \<open>undefined\<close>.\<close>

definition deref :: "'r list \<Rightarrow> nat option \<Rightarrow> 'r option" where
  "deref s l = (case l of None \<Rightarrow> None | Some i \<Rightarrow> if i < length s then Some (s ! i) else None)"

section \<open>dishes.controller.js\<close>

text \<open>
  Modelled from the spec: the data files \<open>src/data/dishes-data\<close> and
  \<open>src/data/orders-data\<close> that hold the two collections are not among the sources. A
  collection is a parameter of every function below, any list of records; the \<open>id\<close> of a
  record is a string, as section 3 of the spec has it and as \<open>nextId\<close> returns it. The
  other fields hold whatever value the body carried.
\<close>

record dish =
  dish_id :: string
  dish_name :: jsval
  dish_description :: jsval
  dish_price :: jsval
  dish_image_url :: jsval

definition dishes_create :: "dish middleware" where
  "dishes_create rq l dishes =
     (case and_then (data_get (body rq) ''name'') (\<lambda>name.
           and_then (data_get (body rq) ''description'') (\<lambda>description.
           and_then (data_get (body rq) ''price'') (\<lambda>price.
           and_then (data_get (body rq) ''image_url'') (\<lambda>image_url.
             Inr \<lparr>dish_id = nextId (map dish_id dishes), dish_name = name,
                  dish_description = description, dish_price = price,
                  dish_image_url = image_url\<rparr>)))) of
        Inl e \<Rightarrow> (Fail e, dishes)
      | Inr newDish \<Rightarrow> (Send 201 (Some newDish), dishes @ [newDish]))"

definition dishes_read :: "dish middleware" where
  "dishes_read rq l dishes = (Send 200 (deref dishes l), dishes)"

text \<open>
  \<open>update\<close> assigns to the fields of the found object, which is the object in the array.
  The \<open>id\<close> it destructures from the body is not used.
\<close>

definition dishes_update :: "dish middleware" where
  "dishes_update rq l dishes =
     (case and_then (data_get (body rq) ''id'') (\<lambda>id'.
           and_then (data_get (body rq) ''name'') (\<lambda>name.
           and_then (data_get (body rq) ''description'') (\<lambda>description.
           and_then (data_get (body rq) ''price'') (\<lambda>price.
           and_then (data_get (body rq) ''image_url'') (\<lambda>image_url.
             Inr (name, description, price, image_url)))))) of
        Inl e \<Rightarrow> (Fail e, dishes)
      | Inr (name, description, price, image_url) \<Rightarrow>
          (case l of
             None \<Rightarrow> (Fail TypeError, dishes)
           | Some i \<Rightarrow>
               if i < length dishes then
                 let foundDish = (dishes ! i)\<lparr>dish_name := name, dish_description := description,
                                   dish_price := price, dish_image_url := image_url\<rparr>
                 in (Send 200 (Some foundDish), dishes[i := foundDish])
               else (Fail TypeError, dishes)))"

definition dishes_bodyDataHas :: "string \<Rightarrow> req \<Rightarrow> nat option \<Rightarrow> dish list \<Rightarrow> dish signal" where
  "dishes_bodyDataHas propertyName rq l dishes =
     (case data_get (body rq) propertyName of
        Inl e \<Rightarrow> Fail e
      | Inr v \<Rightarrow>
          if truthy v then Next l
          else next_error 400 [Lit ''Dish must include a '', Interp (JStr propertyName)])"

text \<open>
  \<open>price <= 0 || !Number.isInteger(price)\<close>. The comparison is evaluated first and can
  throw. Where its answer is left open the operand is not a Number, and the second operand
  of \<open>||\<close> decides.
\<close>

definition hasPrice :: "req \<Rightarrow> nat option \<Rightarrow> dish list \<Rightarrow> dish signal" where
  "hasPrice rq l dishes =
     (case data_get (body rq) ''price'' of
        Inl e \<Rightarrow> Fail e
      | Inr price \<Rightarrow>
          (case js_le price 0 of
             Inl e \<Rightarrow> Fail e
           | Inr c \<Rightarrow>
               if c = Some True \<or> \<not> isInteger price
               then next_error 400
                      [Lit ''Dish must have a price that is an integer greater than 0'']
               else Next l))"

definition dishExists :: "req \<Rightarrow> nat option \<Rightarrow> dish list \<Rightarrow> dish signal" where
  "dishExists rq l dishes =
     (case findIndex (\<lambda>dish. dish_id dish = params rq) dishes of
        Some i \<Rightarrow> Next (Some i)
      | None \<Rightarrow> next_error 404 [Lit ''Dish not found: '', Interp (JStr (params rq))])"

text \<open>
  With an \<open>id\<close> in the body equal to the route's, \<open>idMatch\<close> calls \<open>next()\<close> and, once
  that call has returned, \<open>next()\<close> again. The first call runs \<open>update\<close>, which sends
  the response; the second is dispatched to what follows \<open>update\<close> on the route, outside
  this controller.
\<close>

definition idMatch :: "req \<Rightarrow> nat option \<Rightarrow> dish list \<Rightarrow> dish signal" where
  "idMatch rq l dishes =
     (case data_get (body rq) ''id'' of
        Inl e \<Rightarrow> Fail e
      | Inr id' \<Rightarrow>
          if truthy id' then
            (if JStr (params rq) \<noteq> id'
             then next_error 400
                    [Lit ''Dish id does not match route id. Dish: '', Interp id',
                     Lit '', Route: '', Interp (JStr (params rq))]
             else Next l)
          else Next l)"

definition dishes_exports_create :: "dish middleware list" where
  "dishes_exports_create =
     [check (dishes_bodyDataHas ''name''),
      check (dishes_bodyDataHas ''description''),
      check hasPrice,
      check (dishes_bodyDataHas ''price''),
      check (dishes_bodyDataHas ''image_url''),
      dishes_create]"

definition dishes_exports_read :: "dish middleware list" where
  "dishes_exports_read = [check dishExists, dishes_read]"

definition dishes_exports_update :: "dish middleware list" where
  "dishes_exports_update =
     [check dishExists,
      check (dishes_bodyDataHas ''name''),
      check (dishes_bodyDataHas ''description''),
      check hasPrice,
      check (dishes_bodyDataHas ''price''),
      check (dishes_bodyDataHas ''image_url''),
      check idMatch,
      dishes_update]"

section \<open>orders.controller.js\<close>

record order =
  order_id :: string
  order_deliverTo :: jsval
  order_mobileNumber :: jsval
  order_status :: jsval
  order_dishes :: jsval

text \<open>
  The default of \<open>dishes\<close> in \<open>create\<close> is evaluated only for \<open>undefined\<close>; it assigns to
  \<open>id\<close>, which the same declaration has just bound as a constant, and so throws.
\<close>

definition orders_create :: "order middleware" where
  "orders_create rq l orders =
     (case and_then (data_get (body rq) ''id'') (\<lambda>id'.
           and_then (data_get (body rq) ''deliverTo'') (\<lambda>deliverTo.
           and_then (data_get (body rq) ''mobileNumber'') (\<lambda>mobileNumber.
           and_then (data_get (body rq) ''status'') (\<lambda>status.
           and_then (data_get (body rq) ''dishes'') (\<lambda>dishes.
             if dishes = JUndefined then Inl TypeError
             else Inr \<lparr>order_id = nextId (map order_id orders), order_deliverTo = deliverTo,
                       order_mobileNumber = mobileNumber, order_status = status,
                       order_dishes = dishes\<rparr>))))) of
        Inl e \<Rightarrow> (Fail e, orders)
      | Inr newOrder \<Rightarrow> (Send 201 (Some newOrder), orders @ [newOrder]))"

definition orders_read :: "order middleware" where
  "orders_read rq l orders = (Send 200 (deref orders l), orders)"

text \<open>
  In \<open>update\<close> the names assigned by the default of \<open>dishes\<close> are not declared: outside
  strict mode the assignments create globals, and the default is an array holding one empty
  object.
\<close>

definition orders_update :: "order middleware" where
  "orders_update rq l orders =
     (case and_then (data_get (body rq) ''deliverTo'') (\<lambda>deliverTo.
           and_then (data_get (body rq) ''mobileNumber'') (\<lambda>mobileNumber.
           and_then (data_get (body rq) ''status'') (\<lambda>status.
           and_then (data_get (body rq) ''dishes'') (\<lambda>dishes.
             Inr (deliverTo, mobileNumber, status,
                  if dishes = JUndefined then JArr [JObj []] else dishes))))) of
        Inl e \<Rightarrow> (Fail e, orders)
      | Inr (deliverTo, mobileNumber, status, dishes) \<Rightarrow>
          (case l of
             None \<Rightarrow> (Fail TypeError, orders)
           | Some i \<Rightarrow>
               if i < length orders then
                 let orderToUpdate = (orders ! i)\<lparr>order_deliverTo := deliverTo,
                       order_mobileNumber := mobileNumber, order_status := status,
                       order_dishes := dishes\<rparr>
                 in (Send 200 (Some orderToUpdate), orders[i := orderToUpdate])
               else (Fail TypeError, orders)))"

text \<open>\<open>orders.splice(index, 1)\<close> at the first index holding the found order's \<open>id\<close>.\<close>

definition orders_destroy :: "order middleware" where
  "orders_destroy rq l orders =
     (case deref orders l of
        None \<Rightarrow> (Fail TypeError, orders)
      | Some found \<Rightarrow>
          (Send 204 None,
           case findIndex (\<lambda>order. order_id order = order_id found) orders of
             Some index \<Rightarrow> take index orders @ drop (Suc index) orders
           | None \<Rightarrow> orders))"

definition orders_bodyDataHas :: "string \<Rightarrow> req \<Rightarrow> nat option \<Rightarrow> order list \<Rightarrow> order signal" where
  "orders_bodyDataHas propertyName rq l orders =
     (case data_get (body rq) propertyName of
        Inl e \<Rightarrow> Fail e
      | Inr v \<Rightarrow>
          if truthy v then Next l
          else next_error 400 [Lit ''Order must include a '', Interp (JStr propertyName)])"

text \<open>The elements of an array (\<open>length\<close> is their number).\<close>

fun elements :: "jsval \<Rightarrow> jsval list" where
  "elements (JArr xs) = xs"
| "elements v = []"

definition quantity_error :: "jsval \<Rightarrow> order signal" where
  "quantity_error d =
     (case get d ''id'' of
        Inl e \<Rightarrow> Fail e
      | Inr i \<Rightarrow>
          next_error 400
            [Lit ''Dish '', Interp i,
             Lit '' must have a quantity that is an integer greater than 0''])"

text \<open>
  The loop \<open>for (let i in dishes)\<close> over the lines, in index order. \<open>quantity < 1\<close> is
  evaluated only after \<open>Number.isInteger(quantity)\<close> has held, on a Number.
\<close>

fun each_dish :: "jsval list \<Rightarrow> nat option \<Rightarrow> order signal" where
  "each_dish [] l = Next l"
| "each_dish (d # ds) l =
     (case get d ''quantity'' of
        Inl e \<Rightarrow> Fail e
      | Inr quantity \<Rightarrow>
          if \<not> truthy quantity \<or> \<not> isInteger quantity then quantity_error d
          else
            (case js_less quantity 1 of
               Inl e \<Rightarrow> Fail e
             | Inr c \<Rightarrow> if c = Some True then quantity_error d else each_dish ds l))"

text \<open>
  The default of \<open>dishes\<close> in \<open>dishProperties\<close> is an assignment expression whose value is
  the empty array (outside strict mode its targets become globals).
\<close>

definition dishProperties :: "req \<Rightarrow> nat option \<Rightarrow> order list \<Rightarrow> order signal" where
  "dishProperties rq l orders =
     (case data_get (body rq) ''dishes'' of
        Inl e \<Rightarrow> Fail e
      | Inr d \<Rightarrow>
          let dishes = (if d = JUndefined then JArr [] else d) in
          if \<not> truthy dishes \<or> \<not> isArray dishes \<or> length (elements dishes) = 0
          then next_error 400 [Lit ''Order must include a dish'']
          else each_dish (elements dishes) l)"

definition orderExists :: "req \<Rightarrow> nat option \<Rightarrow> order list \<Rightarrow> order signal" where
  "orderExists rq l orders =
     (case findIndex (\<lambda>order. order_id order = params rq) orders of
        Some i \<Rightarrow> Next (Some i)
      | None \<Rightarrow> next_error 404 [Lit ''Order id not found: '', Interp (JStr (params rq))])"

definition orderStatus :: "req \<Rightarrow> nat option \<Rightarrow> order list \<Rightarrow> order signal" where
  "orderStatus rq l orders =
     (case deref orders l of
        None \<Rightarrow> Fail TypeError
      | Some found \<Rightarrow>
          (case findIndex (\<lambda>order. order_id order = order_id found) orders of
             None \<Rightarrow> Fail TypeError
           | Some j \<Rightarrow>
               if order_status (orders ! j) \<noteq> JStr ''pending''
               then next_error 400 [Lit ''An order cannot be deleted unless it is pending.'']
               else Next l))"

definition matchIds :: "req \<Rightarrow> nat option \<Rightarrow> order list \<Rightarrow> order signal" where
  "matchIds rq l orders =
     (case data_get (body rq) ''id'' of
        Inl e \<Rightarrow> Fail e
      | Inr id' \<Rightarrow>
          if \<not> truthy id' then Next l
          else if id' \<noteq> JStr (params rq)
          then next_error 400
                 [Lit ''Order id does not match route id. Order: '', Interp id',
                  Lit '', Route: '', Interp (JStr (params rq)), Lit ''.'']
          else Next l)"

definition orderDelivered :: "req \<Rightarrow> nat option \<Rightarrow> order list \<Rightarrow> order signal" where
  "orderDelivered rq l orders =
     (case deref orders l of
        None \<Rightarrow> Fail TypeError
      | Some order \<Rightarrow>
          if order_status order = JStr ''delivered''
          then next_error 400 [Lit ''A delivered order cannot be changed'']
          else Next l)"

definition validStatuses :: "jsval list" where
  "validStatuses =
     [JStr ''pending'', JStr ''preparing'', JStr ''out-for-delivery'', JStr ''delivered'']"

definition statusInvalid :: "req \<Rightarrow> nat option \<Rightarrow> order list \<Rightarrow> order signal" where
  "statusInvalid rq l orders =
     (case data_get (body rq) ''status'' of
        Inl e \<Rightarrow> Fail e
      | Inr status \<Rightarrow>
          if status \<in> set validStatuses then Next l
          else next_error 400 [Lit ''Order status invalid''])"

definition orders_exports_create :: "order middleware list" where
  "orders_exports_create =
     [check (orders_bodyDataHas ''deliverTo''),
      check (orders_bodyDataHas ''mobileNumber''),
      check (orders_bodyDataHas ''dishes''),
      check dishProperties,
      orders_create]"

definition orders_exports_read :: "order middleware list" where
  "orders_exports_read = [check orderExists, orders_read]"

definition orders_exports_update :: "order middleware list" where
  "orders_exports_update =
     [check orderExists,
      check matchIds,
      check orderDelivered,
      check (orders_bodyDataHas ''deliverTo''),
      check (orders_bodyDataHas ''mobileNumber''),
      check (orders_bodyDataHas ''dishes''),
      check (orders_bodyDataHas ''status''),
      check statusInvalid,
      check dishProperties,
      orders_update]"

definition orders_exports_destroy :: "order middleware list" where
  "orders_exports_destroy = [check orderExists, check orderStatus, orders_destroy]"

section \<open>Well-formed payload values\<close>

text \<open>
  The predicates below are not part of the controllers: they say, in the words of the data
  model, when a price or an order's \<open>dishes\<close> is acceptable, so that the properties of
  the checks can be stated against them. A price is acceptable when it is an integer Number
  greater than 0; a line when its \<open>quantity\<close> is an integer Number, at least 1; \<open>dishes\<close>
  when it is a non-empty array of such lines.
\<close>

fun price_ok :: "jsval \<Rightarrow> bool" where
  "price_ok (JNum (Finite q)) = (frac q = 0 \<and> 0 < q)"
| "price_ok v = False"

fun quantity_ok :: "jsval \<Rightarrow> bool" where
  "quantity_ok (JNum (Finite q)) = (frac q = 0 \<and> 1 \<le> q)"
| "quantity_ok v = False"

definition line_ok :: "jsval \<Rightarrow> bool" where
  "line_ok d = (case get d ''quantity'' of Inr q \<Rightarrow> quantity_ok q | Inl e \<Rightarrow> False)"

definition dishes_ok :: "jsval \<Rightarrow> bool" where
  "dishes_ok d = (isArray d \<and> elements d \<noteq> [] \<and> list_all line_ok (elements d))"

section \<open>Sample requests and records\<close>

definition taco :: jsval where
  "taco = JObj [(''data'', JObj [(''name'', JStr ''Taco''), (''description'', JStr ''x''),
                 (''price'', JNum (Finite 8)), (''image_url'', JStr ''u'')])]"

definition dish3 :: dish where
  "dish3 = \<lparr>dish_id = ''3'', dish_name = JStr ''Soup'', dish_description = JStr ''hot'',
            dish_price = JNum (Finite 5), dish_image_url = JStr ''s''\<rparr>"

definition dish4 :: dish where
  "dish4 = \<lparr>dish_id = ''4'', dish_name = JStr ''Taco'', dish_description = JStr ''x'',
            dish_price = JNum (Finite 8), dish_image_url = JStr ''u''\<rparr>"

definition two_tacos :: jsval where
  "two_tacos = JArr [JObj [(''id'', JStr ''4''), (''quantity'', JNum (Finite 2))]]"

definition order_body :: jsval where
  "order_body = JObj [(''data'', JObj [(''deliverTo'', JStr ''1 Main St''),
                       (''mobileNumber'', JStr ''555''), (''dishes'', two_tacos)])]"

definition order7 :: "jsval \<Rightarrow> order" where
  "order7 st = \<lparr>order_id = ''7'', order_deliverTo = JStr ''2 Side St'',
                order_mobileNumber = JStr ''777'', order_status = st, order_dishes = two_tacos\<rparr>"

definition order8 :: order where
  "order8 = \<lparr>order_id = ''8'', order_deliverTo = JStr ''1 Main St'',
             order_mobileNumber = JStr ''555'', order_status = JUndefined,
             order_dishes = two_tacos\<rparr>"

definition no_dishes_body :: jsval where
  "no_dishes_body = JObj [(''data'', JObj [(''deliverTo'', JStr ''1 Main St''),
                           (''mobileNumber'', JStr ''555'')])]"

definition bad_line_body :: jsval where
  "bad_line_body =
     JObj [(''data'', JObj [(''deliverTo'', JStr ''1 Main St''), (''mobileNumber'', JStr ''555''),
            (''dishes'', JArr [JObj [(''id'', JStr ''4''), (''quantity'', JNum (Finite 2))],
                               JObj [(''id'', JStr ''5''), (''quantity'', JNum (Finite 0))],
                               JObj [(''id'', JStr ''6'')]])])]"

definition free_taco :: jsval where
  "free_taco = JObj [(''data'', JObj [(''name'', JStr ''Taco''), (''description'', JStr ''x''),
                      (''price'', JNum (Finite 0)), (''image_url'', JStr ''u'')])]"

definition order_update_body :: "jsval \<Rightarrow> jsval" where
  "order_update_body i =
     JObj [(''data'', JObj [(''id'', i), (''deliverTo'', JStr ''3 High St''),
            (''mobileNumber'', JStr ''999''), (''status'', JStr ''preparing''),
            (''dishes'', two_tacos)])]"

definition order7_updated :: order where
  "order7_updated = \<lparr>order_id = ''7'', order_deliverTo = JStr ''3 High St'',
                     order_mobileNumber = JStr ''999'', order_status = JStr ''preparing'',
                     order_dishes = two_tacos\<rparr>"

definition dish_update_body :: "jsval \<Rightarrow> jsval" where
  "dish_update_body i =
     JObj [(''data'', JObj [(''id'', i), (''name'', JStr ''Taco''), (''description'', JStr ''x''),
            (''price'', JNum (Finite 8)), (''image_url'', JStr ''u'')])]"

definition bogus_status_body :: jsval where
  "bogus_status_body = JObj [(''data'', JObj [(''deliverTo'', JStr ''1 Main St''),
                              (''mobileNumber'', JStr ''555''), (''status'', JStr ''bogus''),
                              (''dishes'', two_tacos)])]"

definition order_update_with :: "jsval \<Rightarrow> jsval" where
  "order_update_with dv =
     JObj [(''data'', JObj [(''deliverTo'', JStr ''3 High St''), (''mobileNumber'', JStr ''999''),
            (''status'', JStr ''preparing''), (''dishes'', dv)])]"

lemma run_check:
  "run (check v # ms) rq l s =
     (case v rq l s of
        Next l' \<Rightarrow> run ms rq l' s
      | Fail e \<Rightarrow> (Failed e, s)
      | Send c r \<Rightarrow> (Replied c r, s))"
  by (simp add: check_def split: signal.split)

lemma run_check_Next: "v rq l s = Next l' \<Longrightarrow> run (check v # ms) rq l s = run ms rq l' s"
  by (simp add: check_def)

lemma run_check_Fail: "v rq l s = Fail e \<Longrightarrow> run (check v # ms) rq l s = (Failed e, s)"
  by (simp add: check_def)

lemma run_check_Send: "v rq l s = Send c r \<Longrightarrow> run (check v # ms) rq l s = (Replied c r, s)"
  by (simp add: check_def)

lemma run_checks_then:
  assumes "\<And>rq l s sig s'. h rq l s = (sig, s') \<Longrightarrow> \<forall>c r. sig \<noteq> Send c r \<Longrightarrow> s' = s"
    and "run (map check vs @ [h]) rq l s = (out, s')"
    and "\<forall>c r. out \<noteq> Replied c r"
  shows "s' = s"
  using assms(2)
proof (induction vs arbitrary: l)
  case Nil
  obtain sig t where h: "h rq l s = (sig, t)" by (cases "h rq l s")
  with Nil assms(3) have "\<forall>c r. sig \<noteq> Send c r" and "t = s'"
    by (auto split: signal.splits)
  with assms(1) h show ?case by blast
next
  case (Cons v vs)
  with assms(3) show ?case
    by (cases "v rq l s")
      (auto simp: run_check_Next run_check_Fail run_check_Send simp del: run.simps)
qed

lemma next_error_Lit: "next_error st [Lit a] = Fail (Error st [Lit a])"
  by (simp add: next_error_def)

lemma next_error_cases: "next_error st ps = Fail (Error st ps) \<or> next_error st ps = Fail TypeError"
  by (simp add: next_error_def)

lemma keeps_dishes_create:
  "dishes_create rq l s = (sig, s') \<Longrightarrow> \<forall>c r. sig \<noteq> Send c r \<Longrightarrow> s' = s"
  by (auto simp: dishes_create_def split: sum.splits)

lemma keeps_dishes_update:
  "dishes_update rq l s = (sig, s') \<Longrightarrow> \<forall>c r. sig \<noteq> Send c r \<Longrightarrow> s' = s"
  by (auto simp: dishes_update_def Let_def split: sum.splits option.splits if_splits prod.splits)

lemma keeps_orders_create:
  "orders_create rq l s = (sig, s') \<Longrightarrow> \<forall>c r. sig \<noteq> Send c r \<Longrightarrow> s' = s"
  by (auto simp: orders_create_def split: sum.splits)

lemma keeps_orders_update:
  "orders_update rq l s = (sig, s') \<Longrightarrow> \<forall>c r. sig \<noteq> Send c r \<Longrightarrow> s' = s"
  by (auto simp: orders_update_def Let_def split: sum.splits option.splits if_splits prod.splits)

lemma keeps_orders_destroy:
  "orders_destroy rq l s = (sig, s') \<Longrightarrow> \<forall>c r. sig \<noteq> Send c r \<Longrightarrow> s' = s"
  by (auto simp: orders_destroy_def split: option.splits)

lemma dishes_exports_create_shape:
  "dishes_exports_create =
     map check [dishes_bodyDataHas ''name'', dishes_bodyDataHas ''description'', hasPrice,
                dishes_bodyDataHas ''price'', dishes_bodyDataHas ''image_url''] @ [dishes_create]"
  by (simp add: dishes_exports_create_def)


lemma run_pass:
  "\<forall>v \<in> set vs. v rq l s = Next l \<Longrightarrow> run (map check vs @ ms) rq l s = run ms rq l s"
  by (induction vs) (simp_all add: run_check_Next del: run.simps)

lemma run_first_failure:
  "\<forall>u \<in> set pre. u rq l s = Next l \<Longrightarrow> v rq l s = Fail e \<Longrightarrow>
   run (map check pre @ check v # rest) rq l s = (Failed e, s)"
  by (simp add: run_pass run_check_Fail del: run.simps)

lemma run_Replied:
  assumes "run (map check vs @ ms) rq l s = (Replied c r, s')"
    and "\<forall>v \<in> set vs. v rq l s = Next l \<or> (\<exists>e. v rq l s = Fail e)"
  shows "(\<forall>v \<in> set vs. v rq l s = Next l) \<and> run ms rq l s = (Replied c r, s')"
  using assms
proof (induction vs)
  case Nil
  then show ?case by simp
next
  case (Cons v vs)
  from Cons.prems(2) have "v rq l s = Next l \<or> (\<exists>e. v rq l s = Fail e)" by simp
  then show ?case
  proof
    assume n: "v rq l s = Next l"
    with Cons.prems(1) have "run (map check vs @ ms) rq l s = (Replied c r, s')"
      by (simp add: run_check_Next del: run.simps)
    with Cons.IH Cons.prems(2) n show ?thesis by simp
  next
    assume "\<exists>e. v rq l s = Fail e"
    with Cons.prems(1) show ?thesis by (auto simp: run_check_Fail simp del: run.simps)
  qed
qed

lemma dishes_bodyDataHas_plain:
  "dishes_bodyDataHas p rq l s = Next l \<or> (\<exists>e. dishes_bodyDataHas p rq l s = Fail e)"
  by (auto simp: dishes_bodyDataHas_def next_error_def split: sum.splits)

lemma hasPrice_plain: "hasPrice rq l s = Next l \<or> (\<exists>e. hasPrice rq l s = Fail e)"
  by (auto simp: hasPrice_def next_error_def split: sum.splits)

lemma idMatch_plain: "idMatch rq l s = Next l \<or> (\<exists>e. idMatch rq l s = Fail e)"
  by (auto simp: idMatch_def next_error_def split: sum.splits)

lemma orders_bodyDataHas_plain:
  "orders_bodyDataHas p rq l s = Next l \<or> (\<exists>e. orders_bodyDataHas p rq l s = Fail e)"
  by (auto simp: orders_bodyDataHas_def next_error_def split: sum.splits)

lemma quantity_error_fails: "\<exists>e. quantity_error d = Fail e"
  by (auto simp: quantity_error_def next_error_def split: sum.splits)

lemma each_dish_plain: "each_dish ds l = Next l \<or> (\<exists>e. each_dish ds l = Fail e)"
proof (induction ds)
  case Nil
  then show ?case by simp
next
  case (Cons d ds)
  then show ?case
    using quantity_error_fails [of d] by (auto split: sum.splits)
qed

lemma dishProperties_plain:
  "dishProperties rq l s = Next l \<or> (\<exists>e. dishProperties rq l s = Fail e)"
  using each_dish_plain
  by (auto simp: dishProperties_def next_error_def Let_def split: sum.splits)

lemma orderStatus_plain: "orderStatus rq l s = Next l \<or> (\<exists>e. orderStatus rq l s = Fail e)"
  by (auto simp: orderStatus_def next_error_def split: option.splits)

lemma matchIds_plain: "matchIds rq l s = Next l \<or> (\<exists>e. matchIds rq l s = Fail e)"
  by (auto simp: matchIds_def next_error_def split: sum.splits)

lemma orderDelivered_plain:
  "orderDelivered rq l s = Next l \<or> (\<exists>e. orderDelivered rq l s = Fail e)"
  by (auto simp: orderDelivered_def next_error_def split: option.splits)

lemma statusInvalid_plain:
  "statusInvalid rq l s = Next l \<or> (\<exists>e. statusInvalid rq l s = Fail e)"
  by (auto simp: statusInvalid_def next_error_def split: sum.splits)

lemma findIndex_Some: "findIndex P xs = Some i \<Longrightarrow> i < length xs \<and> P (xs ! i) \<and> (\<forall>j < i. \<not> P (xs ! j))"
proof (induction xs arbitrary: i)
  case Nil
  then show ?case by simp
next
  case (Cons x xs)
  show ?case
  proof (cases "P x")
    case True
    with Cons.prems show ?thesis by simp
  next
    case False
    with Cons.prems obtain k where k: "findIndex P xs = Some k" "i = Suc k" by auto
    from Cons.IH [OF k(1)] False k(2) show ?thesis
      by (auto simp: nth_Cons split: nat.splits)
  qed
qed

lemma findIndex_None: "findIndex P xs = None \<longleftrightarrow> (\<forall>x \<in> set xs. \<not> P x)"
  by (induction xs) auto

lemma dishExists_cases:
  "(\<exists>i. findIndex (\<lambda>d. dish_id d = params rq) s = Some i \<and> dishExists rq l s = Next (Some i)) \<or>
   (findIndex (\<lambda>d. dish_id d = params rq) s = None \<and>
    dishExists rq l s = Fail (Error 404 [Lit ''Dish not found: '', Interp (JStr (params rq))]))"
  by (auto simp: dishExists_def next_error_def split: option.splits)

lemma orderExists_cases:
  "(\<exists>i. findIndex (\<lambda>d. order_id d = params rq) s = Some i \<and> orderExists rq l s = Next (Some i)) \<or>
   (findIndex (\<lambda>d. order_id d = params rq) s = None \<and>
    orderExists rq l s = Fail (Error 404 [Lit ''Order id not found: '', Interp (JStr (params rq))]))"
  by (auto simp: orderExists_def next_error_def split: option.splits)


lemma of_char_digit: "k < 10 \<Longrightarrow> of_char (char_of (48 + k :: nat)) = (48 + k :: nat)"
  by (simp add: of_char_of)

lemma is_digit_char: "k < 10 \<Longrightarrow> is_digit (char_of (48 + k :: nat))"
  by (simp add: is_digit_def of_char_of)

lemma digits_all: "list_all is_digit (digits n)"
proof (induction n rule: digits.induct)
  case (1 n)
  show ?case
  proof (cases "n < 10")
    case True
    then show ?thesis by (subst digits.simps) (simp add: is_digit_char)
  next
    case False
    with 1 have "list_all is_digit (digits (n div 10))" by simp
    moreover have "is_digit (char_of (48 + n mod 10))" by (rule is_digit_char) simp
    ultimately show ?thesis using False by (subst digits.simps) simp
  qed
qed

lemma digits_nonempty: "digits n \<noteq> []"
  by (subst digits.simps) simp

lemma decimal_digits: "foldl (\<lambda>a c. 10 * a + (of_char c - 48)) 0 (digits n) = n"
proof (induction n rule: digits.induct)
  case (1 n)
  show ?case
  proof (cases "n < 10")
    case True
    then show ?thesis by (subst digits.simps) (simp add: of_char_of)
  next
    case False
    with 1 have ih: "foldl (\<lambda>a c. 10 * a + (of_char c - 48)) 0 (digits (n div 10)) = n div 10"
      by simp
    have "n mod 10 < 10" by simp
    then have "(of_char (char_of (48 + n mod 10 :: nat)) :: nat) = 48 + n mod 10"
      by (rule of_char_digit)
    with ih False show ?thesis by (subst digits.simps) simp
  qed
qed

lemma id_number_digits: "id_number (digits n) = Some n"
  by (simp add: id_number_def digits_all digits_nonempty decimal_digits)

lemma le_foldr_max: "n \<in> set ns \<Longrightarrow> n \<le> foldr max ns (0::nat)"
  by (induction ns) auto

lemma le_highest: "s \<in> set ids \<Longrightarrow> id_number s = Some n \<Longrightarrow> n \<le> highest ids"
  unfolding highest_def
  by (rule le_foldr_max) (auto simp: List.map_filter_def intro!: image_eqI[where x = s])

lemma id_number_nextId: "id_number (nextId ids) = Some (Suc (highest ids))"
  by (simp add: nextId_def id_number_digits)

lemma nextId_fresh: "nextId ids \<notin> set ids"
proof
  assume "nextId ids \<in> set ids"
  then have "Suc (highest ids) \<le> highest ids"
    using id_number_nextId by (rule le_highest)
  then show False by simp
qed

lemma nextId_empty: "nextId [] = ''1''"
  by code_simp

lemma nextId_properties:
  "nextId ids \<notin> set ids \<and>
   (\<exists>m. id_number (nextId ids) = Some m \<and> (\<forall>s \<in> set ids. \<forall>n. id_number s = Some n \<longrightarrow> n < m)) \<and>
   (ids = [] \<longrightarrow> nextId ids = ''1'') \<and>
   (distinct ids \<longrightarrow> distinct (ids @ [nextId ids]))"
  using nextId_fresh [of ids] id_number_nextId [of ids] le_highest [of _ ids] nextId_empty
  by (auto simp: less_Suc_eq_le)

lemma dishes_create_Send:
  "dishes_create rq l ds = (Send c (Some d), ds') \<Longrightarrow>
   c = 201 \<and> dish_id d = nextId (map dish_id ds) \<and> ds' = ds @ [d] \<and>
   data_get (body rq) ''name'' = Inr (dish_name d) \<and>
   data_get (body rq) ''description'' = Inr (dish_description d) \<and>
   data_get (body rq) ''price'' = Inr (dish_price d) \<and>
   data_get (body rq) ''image_url'' = Inr (dish_image_url d)"
  by (auto simp: dishes_create_def and_then_def split: sum.splits)

lemma orders_create_Send:
  "orders_create rq l os = (Send c (Some d), os') \<Longrightarrow>
   c = 201 \<and> order_id d = nextId (map order_id os) \<and> os' = os @ [d] \<and>
   data_get (body rq) ''deliverTo'' = Inr (order_deliverTo d) \<and>
   data_get (body rq) ''mobileNumber'' = Inr (order_mobileNumber d) \<and>
   data_get (body rq) ''status'' = Inr (order_status d) \<and>
   data_get (body rq) ''dishes'' = Inr (order_dishes d)"
  by (auto simp: orders_create_def and_then_def split: sum.splits if_splits)

lemma run_single: "run [h] rq l s = (Replied c r, s') \<Longrightarrow> h rq l s = (Send c r, s')"
  by (cases "h rq l s") (auto split: signal.splits)

lemma dishes_create_chain:
  assumes "run dishes_exports_create rq l ds = (Replied c r, ds')"
  shows "dishes_create rq l ds = (Send c r, ds')"
    and "dishes_bodyDataHas ''name'' rq l ds = Next l"
    and "dishes_bodyDataHas ''description'' rq l ds = Next l"
    and "hasPrice rq l ds = Next l"
    and "dishes_bodyDataHas ''price'' rq l ds = Next l"
    and "dishes_bodyDataHas ''image_url'' rq l ds = Next l"
proof -
  let ?vs = "[dishes_bodyDataHas ''name'', dishes_bodyDataHas ''description'', hasPrice,
              dishes_bodyDataHas ''price'', dishes_bodyDataHas ''image_url'']"
  have "run (map check ?vs @ [dishes_create]) rq l ds = (Replied c r, ds')"
    using assms by (simp add: dishes_exports_create_def del: run.simps)
  moreover have "\<forall>v \<in> set ?vs. v rq l ds = Next l \<or> (\<exists>e. v rq l ds = Fail e)"
    using dishes_bodyDataHas_plain hasPrice_plain by simp
  ultimately have *: "(\<forall>v \<in> set ?vs. v rq l ds = Next l) \<and> run [dishes_create] rq l ds = (Replied c r, ds')"
    by (rule run_Replied)
  then show "dishes_create rq l ds = (Send c r, ds')" by (simp add: run_single del: run.simps)
  from * show "dishes_bodyDataHas ''name'' rq l ds = Next l"
    and "dishes_bodyDataHas ''description'' rq l ds = Next l"
    and "hasPrice rq l ds = Next l"
    and "dishes_bodyDataHas ''price'' rq l ds = Next l"
    and "dishes_bodyDataHas ''image_url'' rq l ds = Next l" by simp_all
qed

lemma orders_create_chain:
  assumes "run orders_exports_create rq l os = (Replied c r, os')"
  shows "orders_create rq l os = (Send c r, os')"
    and "orders_bodyDataHas ''deliverTo'' rq l os = Next l"
    and "orders_bodyDataHas ''mobileNumber'' rq l os = Next l"
    and "orders_bodyDataHas ''dishes'' rq l os = Next l"
    and "dishProperties rq l os = Next l"
proof -
  let ?vs = "[orders_bodyDataHas ''deliverTo'', orders_bodyDataHas ''mobileNumber'',
              orders_bodyDataHas ''dishes'', dishProperties]"
  have "run (map check ?vs @ [orders_create]) rq l os = (Replied c r, os')"
    using assms by (simp add: orders_exports_create_def del: run.simps)
  moreover have "\<forall>v \<in> set ?vs. v rq l os = Next l \<or> (\<exists>e. v rq l os = Fail e)"
    using orders_bodyDataHas_plain dishProperties_plain by simp
  ultimately have *: "(\<forall>v \<in> set ?vs. v rq l os = Next l) \<and> run [orders_create] rq l os = (Replied c r, os')"
    by (rule run_Replied)
  then show "orders_create rq l os = (Send c r, os')" by (simp add: run_single del: run.simps)
  from * show "orders_bodyDataHas ''deliverTo'' rq l os = Next l"
    and "orders_bodyDataHas ''mobileNumber'' rq l os = Next l"
    and "orders_bodyDataHas ''dishes'' rq l os = Next l"
    and "dishProperties rq l os = Next l" by simp_all
qed

text \<open>
  C1. For every create of a dish or an order, the \<open>id\<close> assigned to the new record is the
  one \<open>nextId\<close> returns for the collection; it is not the \<open>id\<close> of any record already
  there, it reads as a number that is strictly greater than every numeric \<open>id\<close> present,
  it is \<open>1\<close> when the collection is empty, and distinct ids stay distinct.
\<close>

theorem created_id_fresh_and_greater:
  "(run dishes_exports_create rq l dishes = (Replied c (Some d), dishes') \<longrightarrow>
      dish_id d = nextId (map dish_id dishes) \<and> dishes' = dishes @ [d] \<and>
      dish_id d \<notin> set (map dish_id dishes) \<and>
      (\<exists>m. id_number (dish_id d) = Some m \<and>
           (\<forall>s \<in> set (map dish_id dishes). \<forall>n. id_number s = Some n \<longrightarrow> n < m)) \<and>
      (dishes = [] \<longrightarrow> dish_id d = ''1'') \<and>
      (distinct (map dish_id dishes) \<longrightarrow> distinct (map dish_id dishes'))) \<and>
   (run orders_exports_create rq' l' orders = (Replied c' (Some new), orders') \<longrightarrow>
      order_id new = nextId (map order_id orders) \<and> orders' = orders @ [new] \<and>
      order_id new \<notin> set (map order_id orders) \<and>
      (\<exists>m. id_number (order_id new) = Some m \<and>
           (\<forall>s \<in> set (map order_id orders). \<forall>n. id_number s = Some n \<longrightarrow> n < m)) \<and>
      (orders = [] \<longrightarrow> order_id new = ''1'') \<and>
      (distinct (map order_id orders) \<longrightarrow> distinct (map order_id orders')))"
proof (intro conjI impI)
  assume "run dishes_exports_create rq l dishes = (Replied c (Some d), dishes')"
  then have "dishes_create rq l dishes = (Send c (Some d), dishes')"
    by (rule dishes_create_chain(1))
  then have *: "dish_id d = nextId (map dish_id dishes)" "dishes' = dishes @ [d]"
    by (auto dest: dishes_create_Send)
  show "dish_id d = nextId (map dish_id dishes)" by (rule *)
  show "dishes' = dishes @ [d]" by (rule *)
  show "dish_id d \<notin> set (map dish_id dishes)"
    using nextId_properties [of "map dish_id dishes"] * by simp
  show "\<exists>m. id_number (dish_id d) = Some m \<and>
          (\<forall>s \<in> set (map dish_id dishes). \<forall>n. id_number s = Some n \<longrightarrow> n < m)"
    using nextId_properties [of "map dish_id dishes"] * by simp
  show "dish_id d = ''1''" if "dishes = []"
    using that * nextId_empty by simp
  show "distinct (map dish_id dishes')" if "distinct (map dish_id dishes)"
    using that nextId_properties [of "map dish_id dishes"] * by simp
next
  assume "run orders_exports_create rq' l' orders = (Replied c' (Some new), orders')"
  then have "orders_create rq' l' orders = (Send c' (Some new), orders')"
    by (rule orders_create_chain(1))
  then have *: "order_id new = nextId (map order_id orders)" "orders' = orders @ [new]"
    by (auto dest: orders_create_Send)
  show "order_id new = nextId (map order_id orders)" by (rule *)
  show "orders' = orders @ [new]" by (rule *)
  show "order_id new \<notin> set (map order_id orders)"
    using nextId_properties [of "map order_id orders"] * by simp
  show "\<exists>m. id_number (order_id new) = Some m \<and>
          (\<forall>s \<in> set (map order_id orders). \<forall>n. id_number s = Some n \<longrightarrow> n < m)"
    using nextId_properties [of "map order_id orders"] * by simp
  show "order_id new = ''1''" if "orders = []"
    using that * nextId_empty by simp
  show "distinct (map order_id orders')" if "distinct (map order_id orders)"
    using that nextId_properties [of "map order_id orders"] * by simp
qed

text \<open>A dish created next to dish 3 gets the id 4, an order created next to order 7 the id 8.\<close>

theorem created_id_fresh_and_greater_witness:
  "run dishes_exports_create \<lparr>params = [], body = taco\<rparr> None [dish3] =
     (Replied 201 (Some dish4), [dish3, dish4]) \<and>
   dish_id dish4 \<notin> set (map dish_id [dish3]) \<and>
   (\<exists>m. id_number (dish_id dish4) = Some m \<and>
        (\<forall>s \<in> set (map dish_id [dish3]). \<forall>n. id_number s = Some n \<longrightarrow> n < m)) \<and>
   run orders_exports_create \<lparr>params = [], body = order_body\<rparr> None [order7 (JStr ''pending'')] =
     (Replied 201 (Some order8), [order7 (JStr ''pending''), order8]) \<and>
   order_id order8 \<notin> set (map order_id [order7 (JStr ''pending'')]) \<and>
   (\<exists>m. id_number (order_id order8) = Some m \<and>
        (\<forall>s \<in> set (map order_id [order7 (JStr ''pending'')]).
           \<forall>n. id_number s = Some n \<longrightarrow> n < m))"
proof -
  have d: "run dishes_exports_create \<lparr>params = [], body = taco\<rparr> None [dish3] =
             (Replied 201 (Some dish4), [dish3, dish4])"
    by code_simp
  have o: "run orders_exports_create \<lparr>params = [], body = order_body\<rparr> None
             [order7 (JStr ''pending'')] =
             (Replied 201 (Some order8), [order7 (JStr ''pending''), order8])"
    by code_simp
  from d o
    created_id_fresh_and_greater
      [of "\<lparr>params = [], body = taco\<rparr>" None "[dish3]" 201 dish4 "[dish3, dish4]"
          "\<lparr>params = [], body = order_body\<rparr>" None "[order7 (JStr ''pending'')]" 201 order8
          "[order7 (JStr ''pending''), order8]"]
  show ?thesis by blast
qed

lemma dishes_create_failed:
  assumes "run dishes_exports_create rq l s = (out, s')" and "\<forall>c r. out \<noteq> Replied c r"
  shows "s' = s"
proof (rule run_checks_then [OF keeps_dishes_create _ assms(2)])
  show "run (map check [dishes_bodyDataHas ''name'', dishes_bodyDataHas ''description'', hasPrice,
                     dishes_bodyDataHas ''price'', dishes_bodyDataHas ''image_url''] @ [dishes_create]) rq l s = (out, s')"
    using assms(1) by (simp add: dishes_exports_create_def del: run.simps)
qed

lemma dishes_update_failed:
  assumes "run dishes_exports_update rq l s = (out, s')" and "\<forall>c r. out \<noteq> Replied c r"
  shows "s' = s"
proof (rule run_checks_then [OF keeps_dishes_update _ assms(2)])
  show "run (map check [dishExists, dishes_bodyDataHas ''name'', dishes_bodyDataHas ''description'',
                     hasPrice, dishes_bodyDataHas ''price'', dishes_bodyDataHas ''image_url'',
                     idMatch] @ [dishes_update]) rq l s = (out, s')"
    using assms(1) by (simp add: dishes_exports_update_def del: run.simps)
qed

lemma orders_create_failed:
  assumes "run orders_exports_create rq l s = (out, s')" and "\<forall>c r. out \<noteq> Replied c r"
  shows "s' = s"
proof (rule run_checks_then [OF keeps_orders_create _ assms(2)])
  show "run (map check [orders_bodyDataHas ''deliverTo'', orders_bodyDataHas ''mobileNumber'',
                     orders_bodyDataHas ''dishes'', dishProperties] @ [orders_create]) rq l s = (out, s')"
    using assms(1) by (simp add: orders_exports_create_def del: run.simps)
qed

lemma orders_update_failed:
  assumes "run orders_exports_update rq l s = (out, s')" and "\<forall>c r. out \<noteq> Replied c r"
  shows "s' = s"
proof (rule run_checks_then [OF keeps_orders_update _ assms(2)])
  show "run (map check [orderExists, matchIds, orderDelivered, orders_bodyDataHas ''deliverTo'',
                     orders_bodyDataHas ''mobileNumber'', orders_bodyDataHas ''dishes'',
                     orders_bodyDataHas ''status'', statusInvalid, dishProperties] @ [orders_update]) rq l s = (out, s')"
    using assms(1) by (simp add: orders_exports_update_def del: run.simps)
qed

lemma orders_destroy_failed:
  assumes "run orders_exports_destroy rq l s = (out, s')" and "\<forall>c r. out \<noteq> Replied c r"
  shows "s' = s"
proof (rule run_checks_then [OF keeps_orders_destroy _ assms(2)])
  show "run (map check [orderExists, orderStatus] @ [orders_destroy]) rq l s = (out, s')"
    using assms(1) by (simp add: orders_exports_destroy_def del: run.simps)
qed

text \<open>
  C4. In each mutating operation (dish create and update; order create, update and delete)
  a failing check ends the chain: what follows it is not run, and whenever the operation
  ends in a failure the collection is exactly what it was before the request.
\<close>

theorem failure_leaves_store_unchanged:
  "(v rq l s = Fail e \<longrightarrow> run (check v # rest) rq l s = (Failed e, s)) \<and>
   ((\<exists>e. fst (run dishes_exports_create rq l dishes) = Failed e) \<longrightarrow>
      snd (run dishes_exports_create rq l dishes) = dishes) \<and>
   ((\<exists>e. fst (run dishes_exports_update rq l dishes) = Failed e) \<longrightarrow>
      snd (run dishes_exports_update rq l dishes) = dishes) \<and>
   ((\<exists>e. fst (run orders_exports_create rq l orders) = Failed e) \<longrightarrow>
      snd (run orders_exports_create rq l orders) = orders) \<and>
   ((\<exists>e. fst (run orders_exports_update rq l orders) = Failed e) \<longrightarrow>
      snd (run orders_exports_update rq l orders) = orders) \<and>
   ((\<exists>e. fst (run orders_exports_destroy rq l orders) = Failed e) \<longrightarrow>
      snd (run orders_exports_destroy rq l orders) = orders)"
proof (intro conjI impI)
  show "run (check v # rest) rq l s = (Failed e, s)" if "v rq l s = Fail e"
    using that by (rule run_check_Fail)
next
  assume "\<exists>e. fst (run dishes_exports_create rq l dishes) = Failed e"
  then show "snd (run dishes_exports_create rq l dishes) = dishes"
    using dishes_create_failed [of rq l dishes]
    by (cases "run dishes_exports_create rq l dishes") auto
next
  assume "\<exists>e. fst (run dishes_exports_update rq l dishes) = Failed e"
  then show "snd (run dishes_exports_update rq l dishes) = dishes"
    using dishes_update_failed [of rq l dishes]
    by (cases "run dishes_exports_update rq l dishes") auto
next
  assume "\<exists>e. fst (run orders_exports_create rq l orders) = Failed e"
  then show "snd (run orders_exports_create rq l orders) = orders"
    using orders_create_failed [of rq l orders]
    by (cases "run orders_exports_create rq l orders") auto
next
  assume "\<exists>e. fst (run orders_exports_update rq l orders) = Failed e"
  then show "snd (run orders_exports_update rq l orders) = orders"
    using orders_update_failed [of rq l orders]
    by (cases "run orders_exports_update rq l orders") auto
next
  assume "\<exists>e. fst (run orders_exports_destroy rq l orders) = Failed e"
  then show "snd (run orders_exports_destroy rq l orders) = orders"
    using orders_destroy_failed [of rq l orders]
    by (cases "run orders_exports_destroy rq l orders") auto
qed

text \<open>A request with an empty body for the id 9, which no record has, fails in each of the five chains and leaves the collections as they were.\<close>

theorem failure_leaves_store_unchanged_witness:
  "run (check dishExists # [dishes_read]) \<lparr>params = ''9'', body = JObj []\<rparr> None [dish3] =
     (Failed (Error 404 [Lit ''Dish not found: '', Interp (JStr ''9'')]), [dish3]) \<and>
   fst (run dishes_exports_create \<lparr>params = ''9'', body = JObj []\<rparr> None [dish3]) =
     Failed (Error 400 [Lit ''Dish must include a '', Interp (JStr ''name'')]) \<and>
   snd (run dishes_exports_create \<lparr>params = ''9'', body = JObj []\<rparr> None [dish3]) = [dish3] \<and>
   snd (run dishes_exports_update \<lparr>params = ''9'', body = JObj []\<rparr> None [dish3]) = [dish3] \<and>
   snd (run orders_exports_create \<lparr>params = ''9'', body = JObj []\<rparr> None [order8]) = [order8] \<and>
   snd (run orders_exports_update \<lparr>params = ''9'', body = JObj []\<rparr> None [order8]) = [order8] \<and>
   snd (run orders_exports_destroy \<lparr>params = ''9'', body = JObj []\<rparr> None [order8]) = [order8]"
proof -
  let ?rq = "\<lparr>params = ''9'', body = JObj []\<rparr>"
  have v: "dishExists ?rq None [dish3] =
             Fail (Error 404 [Lit ''Dish not found: '', Interp (JStr ''9'')])"
    by code_simp
  have dc: "fst (run dishes_exports_create ?rq None [dish3]) =
              Failed (Error 400 [Lit ''Dish must include a '', Interp (JStr ''name'')])"
    by code_simp
  have du: "fst (run dishes_exports_update ?rq None [dish3]) =
              Failed (Error 404 [Lit ''Dish not found: '', Interp (JStr ''9'')])"
    by code_simp
  have oc: "fst (run orders_exports_create ?rq None [order8]) =
              Failed (Error 400 [Lit ''Order must include a '', Interp (JStr ''deliverTo'')])"
    by code_simp
  have ou: "fst (run orders_exports_update ?rq None [order8]) =
              Failed (Error 404 [Lit ''Order id not found: '', Interp (JStr ''9'')])"
    by code_simp
  have od: "fst (run orders_exports_destroy ?rq None [order8]) =
              Failed (Error 404 [Lit ''Order id not found: '', Interp (JStr ''9'')])"
    by code_simp
  from v dc du oc ou od
    failure_leaves_store_unchanged
      [of dishExists ?rq None "[dish3]"
          "Error 404 [Lit ''Dish not found: '', Interp (JStr ''9'')]" "[dishes_read]"
          "[dish3]" "[order8]"]
  show ?thesis by blast
qed

lemma deref_found:
  "findIndex P s = Some i \<Longrightarrow> deref s (Some i) = Some (s ! i)"
  by (simp add: deref_def findIndex_Some)

lemma orderExists_found:
  "findIndex (\<lambda>x. order_id x = params rq) orders = Some i \<Longrightarrow>
   orderExists rq l orders = Next (Some i)"
  by (simp add: orderExists_def)

lemma dishExists_found:
  "findIndex (\<lambda>x. dish_id x = params rq) dishes = Some i \<Longrightarrow>
   dishExists rq l dishes = Next (Some i)"
  by (simp add: dishExists_def)

lemma orderDelivered_delivered:
  "findIndex P orders = Some i \<Longrightarrow> order_status (orders ! i) = JStr ''delivered'' \<Longrightarrow>
   orderDelivered rq (Some i) orders =
     Fail (Error 400 [Lit ''A delivered order cannot be changed''])"
  by (simp add: orderDelivered_def deref_found next_error_Lit)

lemma matchIds_result:
  "data_get (body rq) ''id'' = Inr v \<Longrightarrow> \<not> throws v \<Longrightarrow>
   matchIds rq l orders =
     (if \<not> truthy v \<or> v = JStr (params rq) then Next l
      else Fail (Error 400 [Lit ''Order id does not match route id. Order: '', Interp v,
                            Lit '', Route: '', Interp (JStr (params rq)), Lit ''.'']))"
  by (simp add: matchIds_def next_error_def)

lemma update_of_delivered:
  assumes "findIndex (\<lambda>x. order_id x = params rq) orders = Some i"
    and "order_status (orders ! i) = JStr ''delivered''"
  shows "run orders_exports_update rq l orders =
           (case matchIds rq (Some i) orders of
              Fail e \<Rightarrow> (Failed e, orders)
            | _ \<Rightarrow> (Failed (Error 400 [Lit ''A delivered order cannot be changed'']), orders))"
proof -
  let ?rest = "[check (orders_bodyDataHas ''deliverTo''), check (orders_bodyDataHas ''mobileNumber''),
                check (orders_bodyDataHas ''dishes''), check (orders_bodyDataHas ''status''),
                check statusInvalid, check dishProperties, orders_update]"
  have 1: "run orders_exports_update rq l orders =
             run (check matchIds # check orderDelivered # ?rest) rq (Some i) orders"
    unfolding orders_exports_update_def
    by (rule run_check_Next) (rule orderExists_found [OF assms(1)])
  have 2: "run (check orderDelivered # ?rest) rq (Some i) orders =
             (Failed (Error 400 [Lit ''A delivered order cannot be changed'']), orders)"
    by (rule run_check_Fail) (rule orderDelivered_delivered [OF assms])
  from matchIds_plain [of rq "Some i" orders] show ?thesis
  proof
    assume n: "matchIds rq (Some i) orders = Next (Some i)"
    then have "run (check matchIds # check orderDelivered # ?rest) rq (Some i) orders =
                 run (check orderDelivered # ?rest) rq (Some i) orders"
      by (rule run_check_Next)
    with 1 2 n show ?thesis by simp
  next
    assume "\<exists>e. matchIds rq (Some i) orders = Fail e"
    then obtain e where f: "matchIds rq (Some i) orders = Fail e" ..
    then have "run (check matchIds # check orderDelivered # ?rest) rq (Some i) orders =
                 (Failed e, orders)"
      by (rule run_check_Fail)
    with 1 f show ?thesis by simp
  qed
qed

text \<open>
  C2, as amended. An update request on an existing order whose stored status is
  \<open>delivered\<close> never succeeds and leaves the collection unchanged. It fails with status
  400 whenever the id check, which runs before the delivered check, does not throw: the
  body's \<open>data\<close> is not \<open>null\<close> and its \<open>id\<close> can be converted to a string.
\<close>

theorem delivered_order_update_fails:
  assumes "findIndex (\<lambda>x. order_id x = params rq) orders = Some i"
    and "order_status (orders ! i) = JStr ''delivered''"
  shows "snd (run orders_exports_update rq l orders) = orders \<and>
         (\<exists>e. fst (run orders_exports_update rq l orders) = Failed e) \<and>
         (\<forall>v. data_get (body rq) ''id'' = Inr v \<and> \<not> throws v \<longrightarrow>
              (\<exists>m. fst (run orders_exports_update rq l orders) = Failed (Error 400 m)))"
proof -
  note r = update_of_delivered [OF assms, of l]
  have a: "snd (run orders_exports_update rq l orders) = orders"
    unfolding r by (simp split: signal.split)
  have b: "\<exists>e. fst (run orders_exports_update rq l orders) = Failed e"
    unfolding r by (simp split: signal.split)
  have c: "\<exists>m. fst (run orders_exports_update rq l orders) = Failed (Error 400 m)"
    if "data_get (body rq) ''id'' = Inr v" and "\<not> throws v" for v
    unfolding r matchIds_result [OF that] by simp
  from a b c show ?thesis by blast
qed

text \<open>An otherwise valid update of the delivered order 7 is refused with status 400.\<close>

theorem delivered_order_update_fails_witness:
  "snd (run orders_exports_update \<lparr>params = ''7'', body = order_body\<rparr> None
          [order8, order7 (JStr ''delivered'')]) = [order8, order7 (JStr ''delivered'')] \<and>
   (\<exists>m. fst (run orders_exports_update \<lparr>params = ''7'', body = order_body\<rparr> None
              [order8, order7 (JStr ''delivered'')]) = Failed (Error 400 m))"
proof -
  have f: "findIndex (\<lambda>x. order_id x = params \<lparr>params = ''7'', body = order_body\<rparr>)
             [order8, order7 (JStr ''delivered'')] = Some 1"
    by code_simp
  have d: "order_status ([order8, order7 (JStr ''delivered'')] ! 1) = JStr ''delivered''"
    by code_simp
  have v: "data_get (body \<lparr>params = ''7'', body = order_body\<rparr>) ''id'' = Inr JUndefined"
    by code_simp
  from delivered_order_update_fails [OF f d, of None] v show ?thesis
    by auto
qed

text \<open>With \<open>data: null\<close> in the body the id check throws before the delivered check is reached: the update of the delivered order 7 ends in a \<open>TypeError\<close>, not in status 400.\<close>

theorem delivered_order_update_null_data:
  "findIndex (\<lambda>x. order_id x = ''7'') [order7 (JStr ''delivered'')] = Some 0 \<and>
   order_status ([order7 (JStr ''delivered'')] ! 0) = JStr ''delivered'' \<and>
   run orders_exports_update \<lparr>params = ''7'', body = JObj [(''data'', JNull)]\<rparr> None
     [order7 (JStr ''delivered'')] = (Failed TypeError, [order7 (JStr ''delivered'')])"
  by code_simp

lemma findIndex_same_id:
  assumes "findIndex (\<lambda>x. f x = k) xs = Some i"
  shows "findIndex (\<lambda>x. f x = f (xs ! i)) xs = Some i"
proof -
  from findIndex_Some [OF assms] have "f (xs ! i) = k" by simp
  with assms show ?thesis by simp
qed

lemma orderStatus_result:
  assumes "findIndex (\<lambda>x. order_id x = params rq) orders = Some i"
  shows "orderStatus rq (Some i) orders =
           (if order_status (orders ! i) \<noteq> JStr ''pending''
            then Fail (Error 400 [Lit ''An order cannot be deleted unless it is pending.''])
            else Next (Some i))"
  using findIndex_same_id [OF assms]
  by (simp add: orderStatus_def deref_found [OF assms] next_error_Lit)

lemma orders_destroy_result:
  assumes "findIndex (\<lambda>x. order_id x = params rq) orders = Some i"
  shows "orders_destroy rq (Some i) orders =
           (Send 204 None, take i orders @ drop (Suc i) orders)"
  using findIndex_same_id [OF assms]
  by (simp add: orders_destroy_def deref_found [OF assms])

lemma removed_not_found:
  assumes "findIndex (\<lambda>x. f x = k) xs = Some i" and "distinct (map f xs)"
  shows "findIndex (\<lambda>x. f x = k) (take i xs @ drop (Suc i) xs) = None"
proof -
  from findIndex_Some [OF assms(1)] have i: "i < length xs" and k: "f (xs ! i) = k"
    by simp_all
  from i have "xs = take i xs @ xs ! i # drop (Suc i) xs"
    by (rule id_take_nth_drop)
  then have "map f xs = map f (take i xs) @ k # map f (drop (Suc i) xs)"
    using k by (metis list.simps(9) map_append)
  with assms(2) have "distinct (map f (take i xs) @ k # map f (drop (Suc i) xs))"
    by simp
  then have "k \<notin> set (map f (take i xs))" and "k \<notin> set (map f (drop (Suc i) xs))"
    by auto
  then show ?thesis
    by (auto simp: findIndex_None)
qed

lemma orders_read_missing:
  "findIndex (\<lambda>x. order_id x = params rq) orders = None \<Longrightarrow>
   run orders_exports_read rq l orders =
     (Failed (Error 404 [Lit ''Order id not found: '', Interp (JStr (params rq))]), orders)"
  unfolding orders_exports_read_def
  by (rule run_check_Fail) (simp add: orderExists_def next_error_def)

text \<open>
  C3. A delete request on an existing order fails with status 400 and leaves the collection
  unchanged unless the stored status is exactly \<open>pending\<close>; if it is \<open>pending\<close> the order
  is removed, and (ids being unique in the collection) reading that id afterwards fails
  with status 404.
\<close>

theorem delete_only_when_pending:
  assumes "findIndex (\<lambda>x. order_id x = params rq) orders = Some i"
  shows "(order_status (orders ! i) \<noteq> JStr ''pending'' \<longrightarrow>
            run orders_exports_destroy rq l orders =
              (Failed (Error 400 [Lit ''An order cannot be deleted unless it is pending.'']),
               orders)) \<and>
         (order_status (orders ! i) = JStr ''pending'' \<longrightarrow>
            run orders_exports_destroy rq l orders =
              (Replied 204 None, take i orders @ drop (Suc i) orders) \<and>
            (distinct (map order_id orders) \<longrightarrow>
               run orders_exports_read rq l' (take i orders @ drop (Suc i) orders) =
                 (Failed (Error 404 [Lit ''Order id not found: '', Interp (JStr (params rq))]),
                  take i orders @ drop (Suc i) orders)))"
proof -
  have 1: "run orders_exports_destroy rq l orders =
             run [check orderStatus, orders_destroy] rq (Some i) orders"
    unfolding orders_exports_destroy_def
    by (rule run_check_Next) (rule orderExists_found [OF assms])
  have a: "run orders_exports_destroy rq l orders =
             (Failed (Error 400 [Lit ''An order cannot be deleted unless it is pending.'']),
              orders)"
    if "order_status (orders ! i) \<noteq> JStr ''pending''"
  proof -
    have "run [check orderStatus, orders_destroy] rq (Some i) orders =
            (Failed (Error 400 [Lit ''An order cannot be deleted unless it is pending.'']),
             orders)"
      by (rule run_check_Fail) (simp add: orderStatus_result [OF assms] that)
    with 1 show ?thesis by simp
  qed
  have b: "run orders_exports_destroy rq l orders =
             (Replied 204 None, take i orders @ drop (Suc i) orders)"
    if "order_status (orders ! i) = JStr ''pending''"
  proof -
    have "run [check orderStatus, orders_destroy] rq (Some i) orders =
            run [orders_destroy] rq (Some i) orders"
      by (rule run_check_Next) (simp add: orderStatus_result [OF assms] that)
    with 1 show ?thesis by (simp add: orders_destroy_result [OF assms])
  qed
  have c: "run orders_exports_read rq l' (take i orders @ drop (Suc i) orders) =
             (Failed (Error 404 [Lit ''Order id not found: '', Interp (JStr (params rq))]),
              take i orders @ drop (Suc i) orders)"
    if "distinct (map order_id orders)"
    by (rule orders_read_missing) (rule removed_not_found [OF assms that])
  from a b c show ?thesis by blast
qed

text \<open>Deleting order 7 while it is pending removes it, and reading it then fails with 404; while it is preparing the delete is refused.\<close>

theorem delete_only_when_pending_witness:
  "run orders_exports_destroy \<lparr>params = ''7'', body = JUndefined\<rparr> None
     [order8, order7 (JStr ''pending'')] = (Replied 204 None, [order8]) \<and>
   run orders_exports_read \<lparr>params = ''7'', body = JUndefined\<rparr> None [order8] =
     (Failed (Error 404 [Lit ''Order id not found: '', Interp (JStr ''7'')]), [order8]) \<and>
   run orders_exports_destroy \<lparr>params = ''7'', body = JUndefined\<rparr> None
     [order8, order7 (JStr ''preparing'')] =
     (Failed (Error 400 [Lit ''An order cannot be deleted unless it is pending.'']),
      [order8, order7 (JStr ''preparing'')])"
proof -
  let ?rq = "\<lparr>params = ''7'', body = JUndefined\<rparr>"
  have f: "findIndex (\<lambda>x. order_id x = params ?rq) [order8, order7 (JStr ''pending'')] = Some 1"
    by code_simp
  have g: "findIndex (\<lambda>x. order_id x = params ?rq) [order8, order7 (JStr ''preparing'')] = Some 1"
    by code_simp
  have p: "order_status ([order8, order7 (JStr ''pending'')] ! 1) = JStr ''pending''"
    by code_simp
  have q: "order_status ([order8, order7 (JStr ''preparing'')] ! 1) \<noteq> JStr ''pending''"
    by code_simp
  have d: "distinct (map order_id [order8, order7 (JStr ''pending'')])"
    by code_simp
  from delete_only_when_pending [OF f, of None None] p d
    delete_only_when_pending [OF g, of None None] q
  show ?thesis by simp
qed

lemma get_id_of_line: "get d ''quantity'' = Inr q \<Longrightarrow> \<exists>i. get d ''id'' = Inr i"
  by (cases d) simp_all

lemma quantity_test:
  "(\<not> truthy q \<or> \<not> isInteger q \<or> js_less q 1 \<noteq> Inr (Some False)) = (\<not> quantity_ok q)"
proof (cases q)
  case (JNum n)
  then show ?thesis
    by (cases n) (auto simp: js_less_def and_then_def)
qed simp_all

lemma each_dish_line:
  assumes "get d ''quantity'' = Inr q"
  shows "each_dish (d # ds) l = (if quantity_ok q then each_dish ds l else quantity_error d)"
proof (cases "\<not> truthy q \<or> \<not> isInteger q")
  case True
  with quantity_test [of q] have "\<not> quantity_ok q" by blast
  with True assms show ?thesis by auto
next
  case False
  then obtain p where q: "q = JNum (Finite p)" and p: "frac p = 0" "p \<noteq> 0"
    by (cases q rule: isInteger.cases) auto
  with assms show ?thesis
    by (auto simp: js_less_def and_then_def)
qed

lemma each_dish_first_bad:
  assumes "\<forall>x \<in> set pre. line_ok x"
    and "get bad ''quantity'' = Inr q" and "\<not> quantity_ok q"
  shows "each_dish (pre @ bad # post) l = quantity_error bad"
  using assms(1)
proof (induction pre)
  case Nil
  from each_dish_line [OF assms(2)] assms(3) show ?case by simp
next
  case (Cons x pre)
  from Cons.prems have "line_ok x" by simp
  then obtain p where "get x ''quantity'' = Inr p" "quantity_ok p"
    by (auto simp: line_ok_def split: sum.splits)
  with each_dish_line [of x p] Cons show ?case by simp
qed

lemma each_dish_Next:
  "each_dish ds l = Next l' \<Longrightarrow> list_all line_ok ds"
proof (induction ds)
  case Nil
  then show ?case by simp
next
  case (Cons d ds)
  show ?case
  proof (cases "get d ''quantity''")
    case (Inl e)
    with Cons.prems show ?thesis by simp
  next
    case (Inr q)
    from each_dish_line [OF Inr, of ds l] Cons.prems quantity_error_fails [of d]
    have "quantity_ok q" and "each_dish ds l = Next l'"
      by (auto split: if_splits)
    with Cons.IH Inr show ?thesis by (simp add: line_ok_def)
  qed
qed

lemma dishProperties_eq:
  assumes "data_get (body rq) ''dishes'' = Inr d"
  shows "dishProperties rq l s =
           (if \<not> isArray d \<or> elements d = []
            then Fail (Error 400 [Lit ''Order must include a dish''])
            else each_dish (elements d) l)"
  using assms by (cases d) (simp_all add: dishProperties_def Let_def next_error_Lit)

lemma dishProperties_Next:
  assumes "dishProperties rq l s = Next l'"
  shows "\<exists>d. data_get (body rq) ''dishes'' = Inr d \<and> dishes_ok d"
proof -
  from assms obtain d where d: "data_get (body rq) ''dishes'' = Inr d"
    by (cases "data_get (body rq) ''dishes''") (auto simp: dishProperties_def)
  from assms have ok: "isArray d" "elements d \<noteq> []" and "each_dish (elements d) l = Next l'"
    unfolding dishProperties_eq [OF d] by (auto split: if_splits)
  then have "list_all line_ok (elements d)" by (simp add: each_dish_Next)
  with ok d show ?thesis by (auto simp: dishes_ok_def)
qed

lemma dishProperties_no_dish:
  assumes "data_get (body rq) ''dishes'' = Inr d"
    and "d = JUndefined \<or> \<not> isArray d \<or> d = JArr []"
  shows "dishProperties rq l s = Fail (Error 400 [Lit ''Order must include a dish''])"
  using assms(2) unfolding dishProperties_eq [OF assms(1)] by auto

lemma dishProperties_bad_line:
  assumes "data_get (body rq) ''dishes'' = Inr (JArr (pre @ bad # post))"
    and "\<forall>x \<in> set pre. line_ok x"
    and "get bad ''quantity'' = Inr q" and "\<not> quantity_ok q"
    and "get bad ''id'' = Inr i" and "\<not> throws i"
  shows "dishProperties rq l s =
           Fail (Error 400 [Lit ''Dish '', Interp i,
                            Lit '' must have a quantity that is an integer greater than 0''])"
proof -
  have "dishProperties rq l s = each_dish (pre @ bad # post) l"
    unfolding dishProperties_eq [OF assms(1)] by simp
  also have "\<dots> = quantity_error bad"
    using assms(2-4) by (rule each_dish_first_bad)
  also have "\<dots> = Fail (Error 400 [Lit ''Dish '', Interp i,
                            Lit '' must have a quantity that is an integer greater than 0''])"
    using assms(5,6) by (simp add: quantity_error_def next_error_def)
  finally show ?thesis .
qed

lemma run_Failed:
  assumes "run (map check vs @ [h]) rq l s = (Failed e, s')"
    and "\<And>v l. v \<in> set vs \<Longrightarrow> v rq l s = Fail e \<Longrightarrow> P"
    and "\<And>l t. h rq l s = (Fail e, t) \<Longrightarrow> P"
  shows P
  using assms(1,2)
proof (induction vs arbitrary: l)
  case Nil
  then have "\<exists>t. h rq l s = (Fail e, t)"
    by (cases "h rq l s") (auto split: signal.splits)
  with assms(3) show ?case by blast
next
  case (Cons v vs)
  show ?case
  proof (cases "v rq l s")
    case (Next l')
    with Cons.prems(1) have "run (map check vs @ [h]) rq l' s = (Failed e, s')"
      by (simp add: run_check_Next del: run.simps)
    then show ?thesis
    proof (rule Cons.IH)
      fix u k
      assume "u \<in> set vs" and "u rq k s = Fail e"
      with Cons.prems(2) [of u k] show P by simp
    qed
  next
    case (Fail e')
    with Cons.prems(1) have "e' = e"
      by (simp add: run_check_Fail del: run.simps)
    with Fail have "v rq l s = Fail e" by simp
    with Cons.prems(2) [of v l] show ?thesis by simp
  next
    case (Send c r)
    with Cons.prems(1) show ?thesis
      by (simp add: run_check_Send del: run.simps)
  qed
qed

lemma get_Inl: "get v p = Inl e \<Longrightarrow> e = TypeError"
  by (cases v) simp_all

lemma data_get_Inl: "data_get b p = Inl e \<Longrightarrow> e = TypeError"
  by (auto simp: data_get_def destructure_data_def and_then_def
      split: sum.splits dest: get_Inl)

lemma next_error_400: "next_error 400 ps = Fail e \<Longrightarrow> e = TypeError \<or> (\<exists>m. e = Error 400 m)"
  by (auto simp: next_error_def split: if_splits)

lemma orders_bodyDataHas_400:
  "orders_bodyDataHas p rq l s = Fail e \<Longrightarrow> e = TypeError \<or> (\<exists>m. e = Error 400 m)"
  by (auto simp: orders_bodyDataHas_def split: sum.splits if_splits
      dest: data_get_Inl next_error_400)

lemma quantity_error_400: "quantity_error d = Fail e \<Longrightarrow> e = TypeError \<or> (\<exists>m. e = Error 400 m)"
  by (auto simp: quantity_error_def split: sum.splits dest: get_Inl next_error_400)

lemma js_less_Inl: "js_less v q = Inl e \<Longrightarrow> e = TypeError"
  by (cases v) (auto simp: js_less_def and_then_def split: if_splits)

lemma js_le_Inl: "js_le v q = Inl e \<Longrightarrow> e = TypeError"
  by (cases v) (auto simp: js_le_def and_then_def split: if_splits)

lemma each_dish_400: "each_dish ds l = Fail e \<Longrightarrow> e = TypeError \<or> (\<exists>m. e = Error 400 m)"
proof (induction ds)
  case Nil
  then show ?case by simp
next
  case (Cons d ds)
  then show ?case
    by (auto split: sum.splits if_splits dest: get_Inl js_less_Inl quantity_error_400)
qed

lemma dishProperties_400:
  "dishProperties rq l s = Fail e \<Longrightarrow> e = TypeError \<or> (\<exists>m. e = Error 400 m)"
  by (auto simp: dishProperties_def Let_def split: sum.splits if_splits
      dest: data_get_Inl next_error_400 each_dish_400)

lemma matchIds_400: "matchIds rq l s = Fail e \<Longrightarrow> e = TypeError \<or> (\<exists>m. e = Error 400 m)"
  by (auto simp: matchIds_def split: sum.splits if_splits dest: data_get_Inl next_error_400)

lemma orderDelivered_400:
  "orderDelivered rq l s = Fail e \<Longrightarrow> e = TypeError \<or> (\<exists>m. e = Error 400 m)"
  by (auto simp: orderDelivered_def split: option.splits if_splits dest: next_error_400)

lemma statusInvalid_400:
  "statusInvalid rq l s = Fail e \<Longrightarrow> e = TypeError \<or> (\<exists>m. e = Error 400 m)"
  by (auto simp: statusInvalid_def split: sum.splits if_splits dest: data_get_Inl next_error_400)

lemma orderExists_404: "orderExists rq l s = Fail e \<Longrightarrow> \<exists>m. e = Error 404 m"
  by (auto simp: orderExists_def next_error_def split: option.splits)

lemma orders_create_Fail: "orders_create rq l s = (Fail e, t) \<Longrightarrow> e = TypeError"
  by (auto simp: orders_create_def and_then_def split: sum.splits if_splits dest: data_get_Inl)

lemma orders_update_Fail: "orders_update rq l s = (Fail e, t) \<Longrightarrow> e = TypeError"
  by (auto simp: orders_update_def and_then_def Let_def
      split: sum.splits if_splits option.splits prod.splits dest: data_get_Inl)

lemma orders_create_status:
  assumes "run orders_exports_create rq l s = (Failed e, s')"
  shows "e = TypeError \<or> (\<exists>m. e = Error 400 m)"
proof (rule run_Failed)
  show "run (map check [orders_bodyDataHas ''deliverTo'', orders_bodyDataHas ''mobileNumber'',
                        orders_bodyDataHas ''dishes'', dishProperties] @ [orders_create])
          rq l s = (Failed e, s')"
    using assms by (simp add: orders_exports_create_def del: run.simps)
next
  fix v l
  assume "v \<in> set [orders_bodyDataHas ''deliverTo'', orders_bodyDataHas ''mobileNumber'',
                    orders_bodyDataHas ''dishes'', dishProperties]"
    and "v rq l s = Fail e"
  then show "e = TypeError \<or> (\<exists>m. e = Error 400 m)"
    by (auto dest: orders_bodyDataHas_400 dishProperties_400)
next
  fix l t
  assume "orders_create rq l s = (Fail e, t)"
  then show "e = TypeError \<or> (\<exists>m. e = Error 400 m)"
    by (simp add: orders_create_Fail)
qed

lemma orders_update_status:
  assumes "run orders_exports_update rq l s = (Failed e, s')"
  shows "e = TypeError \<or> (\<exists>m. e = Error 400 m) \<or> (\<exists>m. e = Error 404 m)"
proof (rule run_Failed)
  show "run (map check [orderExists, matchIds, orderDelivered, orders_bodyDataHas ''deliverTo'',
                        orders_bodyDataHas ''mobileNumber'', orders_bodyDataHas ''dishes'',
                        orders_bodyDataHas ''status'', statusInvalid, dishProperties] @
               [orders_update]) rq l s = (Failed e, s')"
    using assms by (simp add: orders_exports_update_def del: run.simps)
next
  fix v l
  assume "v \<in> set [orderExists, matchIds, orderDelivered, orders_bodyDataHas ''deliverTo'',
                    orders_bodyDataHas ''mobileNumber'', orders_bodyDataHas ''dishes'',
                    orders_bodyDataHas ''status'', statusInvalid, dishProperties]"
    and "v rq l s = Fail e"
  then show "e = TypeError \<or> (\<exists>m. e = Error 400 m) \<or> (\<exists>m. e = Error 404 m)"
    by (auto dest: orders_bodyDataHas_400 dishProperties_400 matchIds_400 orderDelivered_400
        statusInvalid_400 orderExists_404)
next
  fix l t
  assume "orders_update rq l s = (Fail e, t)"
  then show "e = TypeError \<or> (\<exists>m. e = Error 400 m) \<or> (\<exists>m. e = Error 404 m)"
    by (simp add: orders_update_Fail)
qed

lemma orders_update_chain:
  assumes "run orders_exports_update rq l os = (Replied c r, os')"
  obtains i where "findIndex (\<lambda>x. order_id x = params rq) os = Some i"
    and "orders_update rq (Some i) os = (Send c r, os')"
    and "matchIds rq (Some i) os = Next (Some i)"
    and "orderDelivered rq (Some i) os = Next (Some i)"
    and "orders_bodyDataHas ''deliverTo'' rq (Some i) os = Next (Some i)"
    and "orders_bodyDataHas ''mobileNumber'' rq (Some i) os = Next (Some i)"
    and "orders_bodyDataHas ''dishes'' rq (Some i) os = Next (Some i)"
    and "orders_bodyDataHas ''status'' rq (Some i) os = Next (Some i)"
    and "statusInvalid rq (Some i) os = Next (Some i)"
    and "dishProperties rq (Some i) os = Next (Some i)"
proof -
  let ?vs = "[matchIds, orderDelivered, orders_bodyDataHas ''deliverTo'',
              orders_bodyDataHas ''mobileNumber'', orders_bodyDataHas ''dishes'',
              orders_bodyDataHas ''status'', statusInvalid, dishProperties]"
  have shape: "orders_exports_update = check orderExists # (map check ?vs @ [orders_update])"
    by (simp add: orders_exports_update_def)
  from orderExists_cases [of rq os l] show thesis
  proof (elim disjE exE conjE)
    fix i
    assume f: "findIndex (\<lambda>x. order_id x = params rq) os = Some i"
      and n: "orderExists rq l os = Next (Some i)"
    from n have "run orders_exports_update rq l os =
                   run (map check ?vs @ [orders_update]) rq (Some i) os"
      unfolding shape by (rule run_check_Next)
    with assms have "run (map check ?vs @ [orders_update]) rq (Some i) os = (Replied c r, os')"
      by simp
    moreover have "\<forall>v \<in> set ?vs. v rq (Some i) os = Next (Some i) \<or> (\<exists>e. v rq (Some i) os = Fail e)"
      using matchIds_plain orderDelivered_plain orders_bodyDataHas_plain statusInvalid_plain
        dishProperties_plain by simp
    ultimately have *: "(\<forall>v \<in> set ?vs. v rq (Some i) os = Next (Some i)) \<and>
                        run [orders_update] rq (Some i) os = (Replied c r, os')"
      by (rule run_Replied)
    then have "orders_update rq (Some i) os = (Send c r, os')"
      by (simp add: run_single del: run.simps)
    with * f that show thesis by simp
  next
    assume "orderExists rq l os =
              Fail (Error 404 [Lit ''Order id not found: '', Interp (JStr (params rq))])"
    then have "run orders_exports_update rq l os =
                 (Failed (Error 404 [Lit ''Order id not found: '', Interp (JStr (params rq))]), os)"
      unfolding shape by (rule run_check_Fail)
    with assms show thesis by simp
  qed
qed

lemma orders_bodyDataHas_falsy:
  "data_get (body rq) p = Inr d \<Longrightarrow> \<not> truthy d \<Longrightarrow>
   orders_bodyDataHas p rq l s = Fail (Error 400 [Lit ''Order must include a '', Interp (JStr p)])"
  by (simp add: orders_bodyDataHas_def next_error_def)

lemma data_get_other: "data_get b p = Inr v \<Longrightarrow> \<exists>w. data_get b p' = Inr w"
proof -
  assume a: "data_get b p = Inr v"
  then obtain d where d: "destructure_data b = Inr d" and g: "get d p = Inr v"
    by (auto simp: data_get_def and_then_def split: sum.splits)
  from g have "\<exists>w. get d p' = Inr w" by (cases d) simp_all
  with d show ?thesis by (simp add: data_get_def and_then_def)
qed

lemma dishes_bodyDataHas_eq:
  "data_get (body rq) p = Inr v \<Longrightarrow>
   dishes_bodyDataHas p rq l s =
     (if truthy v then Next l
      else Fail (Error 400 [Lit ''Dish must include a '', Interp (JStr p)]))"
  by (simp add: dishes_bodyDataHas_def next_error_def)

lemma dishes_bodyDataHas_Next_or_400:
  assumes "data_get (body rq) p' = Inr v"
  shows "dishes_bodyDataHas p rq l s = Next l \<or>
         (\<exists>m. dishes_bodyDataHas p rq l s = Fail (Error 400 m))"
proof -
  from data_get_other [OF assms] obtain w where "data_get (body rq) p = Inr w" ..
  then show ?thesis by (simp add: dishes_bodyDataHas_eq)
qed

lemma open_comparison_not_integer: "js_le v q = Inr None \<Longrightarrow> \<not> isInteger v"
  by (cases v) (auto simp: js_le_def and_then_def split: if_splits)

lemma integer_comparison_closed: "isInteger v \<Longrightarrow> \<exists>b. js_less v q = Inr (Some b)"
  by (cases v rule: isInteger.cases) (auto simp: js_less_def and_then_def)

lemma hasPrice_eq:
  assumes "data_get (body rq) ''price'' = Inr p" and "\<not> throws p"
  shows "hasPrice rq l s =
           (if price_ok p then Next l
            else Fail (Error 400
                   [Lit ''Dish must have a price that is an integer greater than 0'']))"
proof (cases p)
  case (JNum n)
  with assms show ?thesis
    by (cases n) (auto simp: hasPrice_def js_le_def and_then_def next_error_Lit)
next
  case (JBool b)
  with assms show ?thesis
    by (simp add: hasPrice_def js_le_def and_then_def next_error_Lit)
qed (use assms in \<open>simp_all add: hasPrice_def js_le_def and_then_def next_error_Lit\<close>)

lemma hasPrice_Next:
  assumes "hasPrice rq l s = Next l'"
  shows "\<exists>p. data_get (body rq) ''price'' = Inr p \<and> price_ok p"
proof -
  from assms obtain p where p: "data_get (body rq) ''price'' = Inr p"
    by (cases "data_get (body rq) ''price''") (auto simp: hasPrice_def)
  have "\<not> throws p"
  proof
    assume "throws p"
    then have "js_le p 0 = Inl TypeError"
      by (cases p) (simp_all add: js_le_def and_then_def)
    with assms p show False by (simp add: hasPrice_def)
  qed
  with assms p have "price_ok p"
    by (auto simp: hasPrice_eq split: if_splits)
  with p show ?thesis by blast
qed

lemma run_prefix_400:
  assumes "\<forall>v \<in> set pre. v rq l s = Next l \<or> (\<exists>m. v rq l s = Fail (Error 400 m))"
    and "w rq l s = Fail (Error 400 m0)"
  shows "\<exists>m. run (map check pre @ check w # rest) rq l s = (Failed (Error 400 m), s)"
  using assms(1)
proof (induction pre)
  case Nil
  from assms(2) have "run (check w # rest) rq l s = (Failed (Error 400 m0), s)"
    by (rule run_check_Fail)
  then show ?case by auto
next
  case (Cons v pre)
  from Cons.prems have "v rq l s = Next l \<or> (\<exists>m. v rq l s = Fail (Error 400 m))" by simp
  then show ?case
  proof (elim disjE exE)
    assume "v rq l s = Next l"
    then have "run (map check (v # pre) @ check w # rest) rq l s =
                 run (map check pre @ check w # rest) rq l s"
      by (simp add: run_check_Next del: run.simps)
    with Cons show ?thesis by simp
  next
    fix m
    assume "v rq l s = Fail (Error 400 m)"
    then have "run (map check (v # pre) @ check w # rest) rq l s = (Failed (Error 400 m), s)"
      by (simp add: run_check_Fail del: run.simps)
    then show ?thesis by blast
  qed
qed

lemma bad_price_create:
  assumes "data_get (body rq) ''price'' = Inr p" and "\<not> price_ok p" and "\<not> throws p"
  shows "\<exists>m. run dishes_exports_create rq l dishes = (Failed (Error 400 m), dishes)"
proof -
  have "\<exists>m. run (map check [dishes_bodyDataHas ''name'', dishes_bodyDataHas ''description''] @
                check hasPrice #
                [check (dishes_bodyDataHas ''price''), check (dishes_bodyDataHas ''image_url''),
                 dishes_create]) rq l dishes = (Failed (Error 400 m), dishes)"
  proof (rule run_prefix_400)
    show "\<forall>v \<in> set [dishes_bodyDataHas ''name'', dishes_bodyDataHas ''description''].
            v rq l dishes = Next l \<or> (\<exists>m. v rq l dishes = Fail (Error 400 m))"
      using dishes_bodyDataHas_Next_or_400 [OF assms(1)] by simp
    show "hasPrice rq l dishes =
            Fail (Error 400 [Lit ''Dish must have a price that is an integer greater than 0''])"
      using assms by (simp add: hasPrice_eq)
  qed
  then show ?thesis by (simp add: dishes_exports_create_def del: run.simps)
qed

lemma bad_price_update:
  assumes "data_get (body rq) ''price'' = Inr p" and "\<not> price_ok p" and "\<not> throws p"
    and "findIndex (\<lambda>x. dish_id x = params rq) dishes = Some i"
  shows "\<exists>m. run dishes_exports_update rq l dishes = (Failed (Error 400 m), dishes)"
proof -
  let ?rest = "[check (dishes_bodyDataHas ''price''), check (dishes_bodyDataHas ''image_url''),
                check idMatch, dishes_update]"
  have "run dishes_exports_update rq l dishes =
          run (map check [dishes_bodyDataHas ''name'', dishes_bodyDataHas ''description''] @
               check hasPrice # ?rest) rq (Some i) dishes"
    unfolding dishes_exports_update_def
    using dishExists_found [OF assms(4), of l] by (simp add: run_check_Next del: run.simps)
  moreover have "\<exists>m. run (map check [dishes_bodyDataHas ''name'', dishes_bodyDataHas ''description''] @
                check hasPrice # ?rest) rq (Some i) dishes = (Failed (Error 400 m), dishes)"
  proof (rule run_prefix_400)
    show "\<forall>v \<in> set [dishes_bodyDataHas ''name'', dishes_bodyDataHas ''description''].
            v rq (Some i) dishes = Next (Some i) \<or> (\<exists>m. v rq (Some i) dishes = Fail (Error 400 m))"
      using dishes_bodyDataHas_Next_or_400 [OF assms(1)] by simp
    show "hasPrice rq (Some i) dishes =
            Fail (Error 400 [Lit ''Dish must have a price that is an integer greater than 0''])"
      using assms by (simp add: hasPrice_eq)
  qed
  ultimately show ?thesis by simp
qed

lemma dishes_update_missing:
  "findIndex (\<lambda>x. dish_id x = params rq) dishes = None \<Longrightarrow>
   run dishes_exports_update rq l dishes =
     (Failed (Error 404 [Lit ''Dish not found: '', Interp (JStr (params rq))]), dishes)"
  unfolding dishes_exports_update_def
  by (rule run_check_Fail) (simp add: dishExists_def next_error_def)

lemma dishes_update_chain:
  assumes "run dishes_exports_update rq l ds = (Replied c r, ds')"
  obtains i where "findIndex (\<lambda>x. dish_id x = params rq) ds = Some i"
    and "dishes_update rq (Some i) ds = (Send c r, ds')"
    and "dishes_bodyDataHas ''name'' rq (Some i) ds = Next (Some i)"
    and "dishes_bodyDataHas ''description'' rq (Some i) ds = Next (Some i)"
    and "hasPrice rq (Some i) ds = Next (Some i)"
    and "dishes_bodyDataHas ''price'' rq (Some i) ds = Next (Some i)"
    and "dishes_bodyDataHas ''image_url'' rq (Some i) ds = Next (Some i)"
    and "idMatch rq (Some i) ds = Next (Some i)"
proof -
  let ?vs = "[dishes_bodyDataHas ''name'', dishes_bodyDataHas ''description'', hasPrice,
              dishes_bodyDataHas ''price'', dishes_bodyDataHas ''image_url'', idMatch]"
  have shape: "dishes_exports_update = check dishExists # (map check ?vs @ [dishes_update])"
    by (simp add: dishes_exports_update_def)
  from dishExists_cases [of rq ds l] show thesis
  proof (elim disjE exE conjE)
    fix i
    assume f: "findIndex (\<lambda>x. dish_id x = params rq) ds = Some i"
      and n: "dishExists rq l ds = Next (Some i)"
    from n have "run dishes_exports_update rq l ds =
                   run (map check ?vs @ [dishes_update]) rq (Some i) ds"
      unfolding shape by (rule run_check_Next)
    with assms have "run (map check ?vs @ [dishes_update]) rq (Some i) ds = (Replied c r, ds')"
      by simp
    moreover have "\<forall>v \<in> set ?vs. v rq (Some i) ds = Next (Some i) \<or> (\<exists>e. v rq (Some i) ds = Fail e)"
      using dishes_bodyDataHas_plain hasPrice_plain idMatch_plain by simp
    ultimately have *: "(\<forall>v \<in> set ?vs. v rq (Some i) ds = Next (Some i)) \<and>
                        run [dishes_update] rq (Some i) ds = (Replied c r, ds')"
      by (rule run_Replied)
    then have "dishes_update rq (Some i) ds = (Send c r, ds')"
      by (simp add: run_single del: run.simps)
    with * f that show thesis by simp
  next
    assume "dishExists rq l ds =
              Fail (Error 404 [Lit ''Dish not found: '', Interp (JStr (params rq))])"
    then have "run dishes_exports_update rq l ds =
                 (Failed (Error 404 [Lit ''Dish not found: '', Interp (JStr (params rq))]), ds)"
      unfolding shape by (rule run_check_Fail)
    with assms show thesis by simp
  qed
qed

lemma dishes_update_Send:
  assumes "dishes_update rq (Some i) ds = (Send c r, ds')"
  shows "\<exists>name description price image_url.
           data_get (body rq) ''name'' = Inr name \<and>
           data_get (body rq) ''description'' = Inr description \<and>
           data_get (body rq) ''price'' = Inr price \<and>
           data_get (body rq) ''image_url'' = Inr image_url \<and>
           i < length ds \<and> c = 200 \<and>
           ds' = ds[i := (ds ! i)\<lparr>dish_name := name, dish_description := description,
                                  dish_price := price, dish_image_url := image_url\<rparr>] \<and>
           r = Some (ds' ! i)"
  using assms
  by (auto simp: dishes_update_def and_then_def Let_def split: sum.splits if_splits)

text \<open>
  C6, as amended. A dish create request, and a dish update request for an id that a dish
  has, whose \<open>price\<close> is less than or equal to 0 or not an integer (and can be converted
  to a primitive) fails with status 400; an update request for an id that no dish has fails
  with status 404, whatever its price. Every dish that create or update stores has a price
  that is an integer greater than 0.
\<close>

theorem price_is_checked:
  "(data_get (body rq) ''price'' = Inr p \<and> \<not> price_ok p \<and> \<not> throws p \<longrightarrow>
      hasPrice rq l dishes =
        Fail (Error 400 [Lit ''Dish must have a price that is an integer greater than 0'']) \<and>
      (\<exists>m. run dishes_exports_create rq l dishes = (Failed (Error 400 m), dishes)) \<and>
      (\<forall>i. findIndex (\<lambda>x. dish_id x = params rq) dishes = Some i \<longrightarrow>
           (\<exists>m. run dishes_exports_update rq l dishes = (Failed (Error 400 m), dishes)))) \<and>
   (findIndex (\<lambda>x. dish_id x = params rq) dishes = None \<longrightarrow>
      run dishes_exports_update rq l dishes =
        (Failed (Error 404 [Lit ''Dish not found: '', Interp (JStr (params rq))]), dishes)) \<and>
   (run dishes_exports_create rq l dishes = (Replied c r, dishes') \<or>
    run dishes_exports_update rq l dishes = (Replied c r, dishes') \<longrightarrow>
      (\<exists>new. r = Some new \<and> new \<in> set dishes' \<and> price_ok (dish_price new) \<and>
             data_get (body rq) ''price'' = Inr (dish_price new)))"
proof (intro conjI impI allI)
  assume a: "data_get (body rq) ''price'' = Inr p \<and> \<not> price_ok p \<and> \<not> throws p"
  then show "hasPrice rq l dishes =
        Fail (Error 400 [Lit ''Dish must have a price that is an integer greater than 0''])"
    by (simp add: hasPrice_eq)
  from a show "\<exists>m. run dishes_exports_create rq l dishes = (Failed (Error 400 m), dishes)"
    using bad_price_create by blast
  fix i
  assume "findIndex (\<lambda>x. dish_id x = params rq) dishes = Some i"
  with a show "\<exists>m. run dishes_exports_update rq l dishes = (Failed (Error 400 m), dishes)"
    using bad_price_update by blast
next
  assume "findIndex (\<lambda>x. dish_id x = params rq) dishes = None"
  then show "run dishes_exports_update rq l dishes =
        (Failed (Error 404 [Lit ''Dish not found: '', Interp (JStr (params rq))]), dishes)"
    by (rule dishes_update_missing)
next
  assume "run dishes_exports_create rq l dishes = (Replied c r, dishes') \<or>
          run dishes_exports_update rq l dishes = (Replied c r, dishes')"
  then show "\<exists>new. r = Some new \<and> new \<in> set dishes' \<and> price_ok (dish_price new) \<and>
               data_get (body rq) ''price'' = Inr (dish_price new)"
  proof
    assume run: "run dishes_exports_create rq l dishes = (Replied c r, dishes')"
    then have cr: "dishes_create rq l dishes = (Send c r, dishes')"
      by (rule dishes_create_chain(1))
    then obtain new where new: "r = Some new"
      by (auto simp: dishes_create_def split: sum.splits)
    from cr [unfolded new] have s: "dishes' = dishes @ [new]"
      "data_get (body rq) ''price'' = Inr (dish_price new)"
      by (auto dest: dishes_create_Send)
    from run have "hasPrice rq l dishes = Next l"
      by (rule dishes_create_chain(4))
    then have "price_ok (dish_price new)"
      using s(2) by (auto dest: hasPrice_Next)
    with new s show ?thesis by simp
  next
    assume "run dishes_exports_update rq l dishes = (Replied c r, dishes')"
    then obtain i where u: "dishes_update rq (Some i) dishes = (Send c r, dishes')"
      and h: "hasPrice rq (Some i) dishes = Next (Some i)"
      by (rule dishes_update_chain)
    from dishes_update_Send [OF u] obtain name description price image_url where
      p: "data_get (body rq) ''price'' = Inr price" and i: "i < length dishes" and
      d: "dishes' = dishes[i := (dishes ! i)\<lparr>dish_name := name, dish_description := description,
                                  dish_price := price, dish_image_url := image_url\<rparr>]" and
      r: "r = Some (dishes' ! i)"
      by blast
    from h p have "price_ok price" by (auto dest: hasPrice_Next)
    moreover from i d have "dish_price (dishes' ! i) = price" by simp
    moreover from i d have "dishes' ! i \<in> set dishes'" by (simp add: set_update_memI)
    ultimately show ?thesis using r p by simp
  qed
qed

text \<open>A taco for the price 0 is refused on create and on update of dish 3; a taco for 8 is stored.\<close>

theorem price_is_checked_witness:
  "(\<exists>m. run dishes_exports_create \<lparr>params = ''3'', body = free_taco\<rparr> None [dish3] =
          (Failed (Error 400 m), [dish3])) \<and>
   (\<exists>m. run dishes_exports_update \<lparr>params = ''3'', body = free_taco\<rparr> None [dish3] =
          (Failed (Error 400 m), [dish3])) \<and>
   run dishes_exports_update \<lparr>params = ''9'', body = taco\<rparr> None [dish3] =
     (Failed (Error 404 [Lit ''Dish not found: '', Interp (JStr ''9'')]), [dish3]) \<and>
   price_ok (dish_price dish4)"
proof -
  let ?free = "\<lparr>params = ''3'', body = free_taco\<rparr>"
  let ?gone = "\<lparr>params = ''9'', body = taco\<rparr>"
  let ?new = "\<lparr>params = [], body = taco\<rparr>"
  have p: "data_get (body ?free) ''price'' = Inr (JNum (Finite 0)) \<and>
           \<not> price_ok (JNum (Finite 0)) \<and> \<not> throws (JNum (Finite 0))"
    by code_simp
  have f: "findIndex (\<lambda>x. dish_id x = params ?free) [dish3] = Some 0"
    by code_simp
  have g: "findIndex (\<lambda>x. dish_id x = params ?gone) [dish3] = None"
    by code_simp
  have c: "run dishes_exports_create ?new None [dish3] = (Replied 201 (Some dish4), [dish3, dish4])"
    by code_simp
  note t = price_is_checked
  from p f t [where rq = ?free and p = "JNum (Finite 0)" and l = None and dishes = "[dish3]"]
  have 1: "(\<exists>m. run dishes_exports_create ?free None [dish3] = (Failed (Error 400 m), [dish3])) \<and>
           (\<exists>m. run dishes_exports_update ?free None [dish3] = (Failed (Error 400 m), [dish3]))"
    by blast
  from g t [where rq = ?gone and l = None and dishes = "[dish3]"]
  have 2: "run dishes_exports_update ?gone None [dish3] =
             (Failed (Error 404 [Lit ''Dish not found: '', Interp (JStr ''9'')]), [dish3])"
    by simp
  from c t [where rq = ?new and l = None and dishes = "[dish3]" and c = 201
      and r = "Some dish4" and dishes' = "[dish3, dish4]"]
  have 3: "price_ok (dish_price dish4)"
    by auto
  from 1 2 3 show ?thesis by blast
qed

text \<open>An update with the price 0 for the id 9, which no dish has, fails with status 404.\<close>

theorem bad_price_for_unknown_dish_is_404:
  "data_get free_taco ''price'' = Inr (JNum (Finite 0)) \<and>
   run dishes_exports_update \<lparr>params = ''9'', body = free_taco\<rparr> None [dish3] =
     (Failed (Error 404 [Lit ''Dish not found: '', Interp (JStr ''9'')]), [dish3])"
  by code_simp

lemma orders_bodyDataHas_Next:
  "orders_bodyDataHas p rq l s = Next l' \<Longrightarrow> \<exists>v. data_get (body rq) p = Inr v \<and> truthy v"
  by (auto simp: orders_bodyDataHas_def next_error_def split: sum.splits if_splits)

lemma orders_update_Send:
  assumes "orders_update rq (Some i) os = (Send c r, os')"
    and "orders_bodyDataHas ''dishes'' rq l os = Next l'"
  shows "\<exists>deliverTo mobileNumber status dishes.
           data_get (body rq) ''deliverTo'' = Inr deliverTo \<and>
           data_get (body rq) ''mobileNumber'' = Inr mobileNumber \<and>
           data_get (body rq) ''status'' = Inr status \<and>
           data_get (body rq) ''dishes'' = Inr dishes \<and>
           i < length os \<and> c = 200 \<and>
           os' = os[i := (os ! i)\<lparr>order_deliverTo := deliverTo,
                     order_mobileNumber := mobileNumber, order_status := status,
                     order_dishes := dishes\<rparr>] \<and>
           r = Some (os' ! i)"
proof -
  from orders_bodyDataHas_Next [OF assms(2)] obtain dv where
    dv: "data_get (body rq) ''dishes'' = Inr dv" "truthy dv" by blast
  then have "dv \<noteq> JUndefined" by auto
  with assms(1) dv(1) show ?thesis
    by (auto simp: orders_update_def and_then_def Let_def split: sum.splits if_splits)
qed

lemma map_id_update:
  "i < length xs \<Longrightarrow> f x = f (xs ! i) \<Longrightarrow> map f (xs[i := x]) = map f xs"
  by (simp add: map_update list_update_same_conv)

text \<open>
  C7. A successful update of a dish or of an order overwrites, in the record found for the
  route's id, the fields \<open>name\<close>, \<open>description\<close>, \<open>price\<close>, \<open>image_url\<close> (dish) or
  \<open>deliverTo\<close>, \<open>mobileNumber\<close>, \<open>status\<close>, \<open>dishes\<close> (order) with the values of the
  body, and nothing else: the record keeps its \<open>id\<close> whatever \<open>id\<close> the body carries,
  and every other record is as before.
\<close>

theorem update_keeps_id:
  "(run dishes_exports_update rq l dishes = (Replied c r, dishes') \<longrightarrow>
      (\<exists>i name description price image_url.
         findIndex (\<lambda>x. dish_id x = params rq) dishes = Some i \<and> i < length dishes \<and>
         data_get (body rq) ''name'' = Inr name \<and>
         data_get (body rq) ''description'' = Inr description \<and>
         data_get (body rq) ''price'' = Inr price \<and>
         data_get (body rq) ''image_url'' = Inr image_url \<and>
         dishes' = dishes[i := (dishes ! i)\<lparr>dish_name := name, dish_description := description,
                                dish_price := price, dish_image_url := image_url\<rparr>] \<and>
         r = Some (dishes' ! i) \<and>
         dish_id (dishes' ! i) = dish_id (dishes ! i) \<and>
         map dish_id dishes' = map dish_id dishes)) \<and>
   (run orders_exports_update rq' l' orders = (Replied c' r', orders') \<longrightarrow>
      (\<exists>i deliverTo mobileNumber status dv.
         findIndex (\<lambda>x. order_id x = params rq') orders = Some i \<and> i < length orders \<and>
         data_get (body rq') ''deliverTo'' = Inr deliverTo \<and>
         data_get (body rq') ''mobileNumber'' = Inr mobileNumber \<and>
         data_get (body rq') ''status'' = Inr status \<and>
         data_get (body rq') ''dishes'' = Inr dv \<and>
         orders' = orders[i := (orders ! i)\<lparr>order_deliverTo := deliverTo,
                      order_mobileNumber := mobileNumber, order_status := status,
                      order_dishes := dv\<rparr>] \<and>
         r' = Some (orders' ! i) \<and>
         order_id (orders' ! i) = order_id (orders ! i) \<and>
         map order_id orders' = map order_id orders))"
proof (intro conjI impI)
  assume "run dishes_exports_update rq l dishes = (Replied c r, dishes')"
  then obtain i where f: "findIndex (\<lambda>x. dish_id x = params rq) dishes = Some i"
    and u: "dishes_update rq (Some i) dishes = (Send c r, dishes')"
    by (rule dishes_update_chain)
  from dishes_update_Send [OF u] obtain name description price image_url where
    g: "data_get (body rq) ''name'' = Inr name"
       "data_get (body rq) ''description'' = Inr description"
       "data_get (body rq) ''price'' = Inr price"
       "data_get (body rq) ''image_url'' = Inr image_url" and
    i: "i < length dishes" and
    d: "dishes' = dishes[i := (dishes ! i)\<lparr>dish_name := name, dish_description := description,
                                dish_price := price, dish_image_url := image_url\<rparr>]" and
    r: "r = Some (dishes' ! i)"
    by blast
  from i d have k: "dish_id (dishes' ! i) = dish_id (dishes ! i)" by simp
  from i d have m: "map dish_id dishes' = map dish_id dishes"
    by (simp add: map_id_update)
  from f g i d r k m
  show "\<exists>i name description price image_url.
         findIndex (\<lambda>x. dish_id x = params rq) dishes = Some i \<and> i < length dishes \<and>
         data_get (body rq) ''name'' = Inr name \<and>
         data_get (body rq) ''description'' = Inr description \<and>
         data_get (body rq) ''price'' = Inr price \<and>
         data_get (body rq) ''image_url'' = Inr image_url \<and>
         dishes' = dishes[i := (dishes ! i)\<lparr>dish_name := name, dish_description := description,
                                dish_price := price, dish_image_url := image_url\<rparr>] \<and>
         r = Some (dishes' ! i) \<and>
         dish_id (dishes' ! i) = dish_id (dishes ! i) \<and>
         map dish_id dishes' = map dish_id dishes"
    by blast
next
  assume "run orders_exports_update rq' l' orders = (Replied c' r', orders')"
  then obtain i where f: "findIndex (\<lambda>x. order_id x = params rq') orders = Some i"
    and u: "orders_update rq' (Some i) orders = (Send c' r', orders')"
    and h: "orders_bodyDataHas ''dishes'' rq' (Some i) orders = Next (Some i)"
    by (rule orders_update_chain)
  from orders_update_Send [OF u h] obtain deliverTo mobileNumber status dv where
    g: "data_get (body rq') ''deliverTo'' = Inr deliverTo"
       "data_get (body rq') ''mobileNumber'' = Inr mobileNumber"
       "data_get (body rq') ''status'' = Inr status"
       "data_get (body rq') ''dishes'' = Inr dv" and
    i: "i < length orders" and
    d: "orders' = orders[i := (orders ! i)\<lparr>order_deliverTo := deliverTo,
                      order_mobileNumber := mobileNumber, order_status := status,
                      order_dishes := dv\<rparr>]" and
    r: "r' = Some (orders' ! i)"
    by blast
  from i d have k: "order_id (orders' ! i) = order_id (orders ! i)" by simp
  from i d have m: "map order_id orders' = map order_id orders"
    by (simp add: map_id_update)
  from f g i d r k m
  show "\<exists>i deliverTo mobileNumber status dv.
         findIndex (\<lambda>x. order_id x = params rq') orders = Some i \<and> i < length orders \<and>
         data_get (body rq') ''deliverTo'' = Inr deliverTo \<and>
         data_get (body rq') ''mobileNumber'' = Inr mobileNumber \<and>
         data_get (body rq') ''status'' = Inr status \<and>
         data_get (body rq') ''dishes'' = Inr dv \<and>
         orders' = orders[i := (orders ! i)\<lparr>order_deliverTo := deliverTo,
                      order_mobileNumber := mobileNumber, order_status := status,
                      order_dishes := dv\<rparr>] \<and>
         r' = Some (orders' ! i) \<and>
         order_id (orders' ! i) = order_id (orders ! i) \<and>
         map order_id orders' = map order_id orders"
    by blast
qed

text \<open>Dish 3 and order 7 are updated and keep their ids.\<close>

theorem update_keeps_id_witness:
  "run dishes_exports_update \<lparr>params = ''3'', body = dish_update_body (JStr ''3'')\<rparr> None
     [dish3, dish4] = (Replied 200 (Some (dish4\<lparr>dish_id := ''3''\<rparr>)),
                       [dish4\<lparr>dish_id := ''3''\<rparr>, dish4]) \<and>
   map dish_id [dish4\<lparr>dish_id := ''3''\<rparr>, dish4] = map dish_id [dish3, dish4] \<and>
   run orders_exports_update \<lparr>params = ''7'', body = order_update_body JUndefined\<rparr> None
     [order8, order7 (JStr ''pending'')] =
     (Replied 200 (Some order7_updated), [order8, order7_updated]) \<and>
   map order_id [order8, order7_updated] = map order_id [order8, order7 (JStr ''pending'')]"
proof -
  have d: "run dishes_exports_update \<lparr>params = ''3'', body = dish_update_body (JStr ''3'')\<rparr>
             None [dish3, dish4] =
             (Replied 200 (Some (dish4\<lparr>dish_id := ''3''\<rparr>)), [dish4\<lparr>dish_id := ''3''\<rparr>, dish4])"
    by code_simp
  have o: "run orders_exports_update \<lparr>params = ''7'', body = order_update_body JUndefined\<rparr>
             None [order8, order7 (JStr ''pending'')] =
             (Replied 200 (Some order7_updated), [order8, order7_updated])"
    by code_simp
  from d o
    update_keeps_id
      [where rq = "\<lparr>params = ''3'', body = dish_update_body (JStr ''3'')\<rparr>" and l = None
         and dishes = "[dish3, dish4]" and c = 200 and r = "Some (dish4\<lparr>dish_id := ''3''\<rparr>)"
         and dishes' = "[dish4\<lparr>dish_id := ''3''\<rparr>, dish4]"
         and rq' = "\<lparr>params = ''7'', body = order_update_body JUndefined\<rparr>" and l' = None
         and orders = "[order8, order7 (JStr ''pending'')]" and c' = 200
         and r' = "Some order7_updated" and orders' = "[order8, order7_updated]"]
  show ?thesis by blast
qed

lemma findIndex_append_new:
  "\<forall>x \<in> set xs. \<not> P x \<Longrightarrow> P y \<Longrightarrow> findIndex P (xs @ [y]) = Some (length xs)"
  by (induction xs) simp_all

lemma dishes_read_new:
  assumes "dish_id new \<notin> set (map dish_id ds)"
  shows "run dishes_exports_read \<lparr>params = dish_id new, body = b\<rparr> k (ds @ [new]) =
           (Replied 200 (Some new), ds @ [new])"
proof -
  let ?rq = "\<lparr>params = dish_id new, body = b\<rparr>"
  have "findIndex (\<lambda>x. dish_id x = params ?rq) (ds @ [new]) = Some (length ds)"
    using assms by (intro findIndex_append_new) (auto simp: image_iff)
  then have "dishExists ?rq k (ds @ [new]) = Next (Some (length ds))"
    by (rule dishExists_found)
  then have "run dishes_exports_read ?rq k (ds @ [new]) =
               run [dishes_read] ?rq (Some (length ds)) (ds @ [new])"
    unfolding dishes_exports_read_def by (rule run_check_Next)
  then show ?thesis by (simp add: dishes_read_def deref_def)
qed

lemma orders_read_new:
  assumes "order_id new \<notin> set (map order_id os)"
  shows "run orders_exports_read \<lparr>params = order_id new, body = b\<rparr> k (os @ [new]) =
           (Replied 200 (Some new), os @ [new])"
proof -
  let ?rq = "\<lparr>params = order_id new, body = b\<rparr>"
  have "findIndex (\<lambda>x. order_id x = params ?rq) (os @ [new]) = Some (length os)"
    using assms by (intro findIndex_append_new) (auto simp: image_iff)
  then have "orderExists ?rq k (os @ [new]) = Next (Some (length os))"
    by (rule orderExists_found)
  then have "run orders_exports_read ?rq k (os @ [new]) =
               run [orders_read] ?rq (Some (length os)) (os @ [new])"
    unfolding orders_exports_read_def by (rule run_check_Next)
  then show ?thesis by (simp add: orders_read_def deref_def)
qed

lemma orders_create_ok:
  assumes "data_get (body rq) ''dishes'' = Inr dv" and "dv \<noteq> JUndefined"
  shows "\<exists>new. orders_create rq l os = (Send 201 (Some new), os @ [new]) \<and>
           data_get (body rq) ''status'' = Inr (order_status new) \<and>
           order_id new = nextId (map order_id os) \<and>
           data_get (body rq) ''deliverTo'' = Inr (order_deliverTo new) \<and>
           data_get (body rq) ''mobileNumber'' = Inr (order_mobileNumber new) \<and>
           data_get (body rq) ''dishes'' = Inr (order_dishes new)"
proof -
  from data_get_other [OF assms(1)] obtain a where a: "data_get (body rq) ''id'' = Inr a" ..
  from data_get_other [OF assms(1)] obtain b where b: "data_get (body rq) ''deliverTo'' = Inr b" ..
  from data_get_other [OF assms(1)] obtain c where c: "data_get (body rq) ''mobileNumber'' = Inr c" ..
  from data_get_other [OF assms(1)] obtain d where d: "data_get (body rq) ''status'' = Inr d" ..
  from a b c d assms show ?thesis
    by (simp add: orders_create_def and_then_def)
qed

text \<open>
  C10. Order creation does not look at \<open>status\<close>: whenever the presence checks for
  \<open>deliverTo\<close>, \<open>mobileNumber\<close> and \<open>dishes\<close> and the dishes check pass, the create
  succeeds with status 201 and the stored order carries the body's \<open>status\<close> as it is,
  \<open>undefined\<close> when the body has none; no default is put in its place.
\<close>

theorem create_stores_status_as_given:
  assumes "orders_bodyDataHas ''deliverTo'' rq l orders = Next l"
    and "orders_bodyDataHas ''mobileNumber'' rq l orders = Next l"
    and "orders_bodyDataHas ''dishes'' rq l orders = Next l"
    and "dishProperties rq l orders = Next l"
  shows "\<exists>new. run orders_exports_create rq l orders =
                 (Replied 201 (Some new), orders @ [new]) \<and>
               data_get (body rq) ''status'' = Inr (order_status new)"
proof -
  from orders_bodyDataHas_Next [OF assms(3)] obtain dv where
    dv: "data_get (body rq) ''dishes'' = Inr dv" "truthy dv" by blast
  then have "dv \<noteq> JUndefined" by auto
  from orders_create_ok [OF dv(1) this, of l orders] obtain new where
    new: "orders_create rq l orders = (Send 201 (Some new), orders @ [new])"
      "data_get (body rq) ''status'' = Inr (order_status new)"
    by blast
  have "run (map check [orders_bodyDataHas ''deliverTo'', orders_bodyDataHas ''mobileNumber'',
                        orders_bodyDataHas ''dishes'', dishProperties] @ [orders_create])
          rq l orders = run [orders_create] rq l orders"
    by (rule run_pass) (simp add: assms)
  then have "run orders_exports_create rq l orders = run [orders_create] rq l orders"
    by (simp add: orders_exports_create_def del: run.simps)
  with new show ?thesis by simp
qed

text \<open>An order created without a \<open>status\<close> has the status \<open>undefined\<close>; one created with the status \<open>bogus\<close> has that status.\<close>

theorem create_stores_status_as_given_witness:
  "run orders_exports_create \<lparr>params = [], body = order_body\<rparr> None [order7 (JStr ''pending'')] =
     (Replied 201 (Some order8), [order7 (JStr ''pending''), order8]) \<and>
   order_status order8 = JUndefined \<and>
   run orders_exports_create \<lparr>params = [], body = bogus_status_body\<rparr> None [] =
     (Replied 201 (Some (order8\<lparr>order_id := ''1'', order_status := JStr ''bogus''\<rparr>)),
      [order8\<lparr>order_id := ''1'', order_status := JStr ''bogus''\<rparr>])"
proof -
  let ?rq = "\<lparr>params = [], body = order_body\<rparr>"
  let ?bogus = "\<lparr>params = [], body = bogus_status_body\<rparr>"
  let ?os = "[order7 (JStr ''pending'')]"
  have 1: "orders_bodyDataHas ''deliverTo'' ?rq None ?os = Next None" by code_simp
  have 2: "orders_bodyDataHas ''mobileNumber'' ?rq None ?os = Next None" by code_simp
  have 3: "orders_bodyDataHas ''dishes'' ?rq None ?os = Next None" by code_simp
  have 4: "dishProperties ?rq None ?os = Next None" by code_simp
  have 5: "orders_bodyDataHas ''deliverTo'' ?bogus None [] = Next None" by code_simp
  have 6: "orders_bodyDataHas ''mobileNumber'' ?bogus None [] = Next None" by code_simp
  have 7: "orders_bodyDataHas ''dishes'' ?bogus None [] = Next None" by code_simp
  have 8: "dishProperties ?bogus None [] = Next None" by code_simp
  have a: "run orders_exports_create ?rq None ?os =
             (Replied 201 (Some order8), [order7 (JStr ''pending''), order8])"
    by code_simp
  have b: "run orders_exports_create ?bogus None [] =
     (Replied 201 (Some (order8\<lparr>order_id := ''1'', order_status := JStr ''bogus''\<rparr>)),
      [order8\<lparr>order_id := ''1'', order_status := JStr ''bogus''\<rparr>])"
    by code_simp
  have s: "data_get (body ?rq) ''status'' = Inr JUndefined" by code_simp
  from create_stores_status_as_given [OF 1 2 3 4] a s
  have "order_status order8 = JUndefined" by auto
  moreover from create_stores_status_as_given [OF 5 6 7 8] b
  have "data_get (body ?bogus) ''status'' =
          Inr (order_status (order8\<lparr>order_id := ''1'', order_status := JStr ''bogus''\<rparr>))"
    by auto
  ultimately show ?thesis using a b by simp
qed

lemma idMatch_result:
  "data_get (body rq) ''id'' = Inr v \<Longrightarrow> \<not> throws v \<Longrightarrow>
   idMatch rq l dishes =
     (if \<not> truthy v \<or> v = JStr (params rq) then Next l
      else Fail (Error 400 [Lit ''Dish id does not match route id. Dish: '', Interp v,
                            Lit '', Route: '', Interp (JStr (params rq))]))"
  by (auto simp: idMatch_def next_error_def)

lemma falsy_never_throws: "\<not> truthy v \<Longrightarrow> \<not> throws v"
  by (cases v) auto

lemma mismatch_order_update:
  assumes "data_get (body rq) ''id'' = Inr v" and "truthy v" and "v \<noteq> JStr (params rq)"
    and "\<not> throws v" and "findIndex (\<lambda>x. order_id x = params rq) orders = Some i"
  shows "run orders_exports_update rq l orders =
           (Failed (Error 400 [Lit ''Order id does not match route id. Order: '', Interp v,
                               Lit '', Route: '', Interp (JStr (params rq)), Lit ''.'']), orders)"
proof -
  let ?rest = "[check orderDelivered, check (orders_bodyDataHas ''deliverTo''),
                check (orders_bodyDataHas ''mobileNumber''), check (orders_bodyDataHas ''dishes''),
                check (orders_bodyDataHas ''status''), check statusInvalid,
                check dishProperties, orders_update]"
  have "run orders_exports_update rq l orders = run (check matchIds # ?rest) rq (Some i) orders"
    unfolding orders_exports_update_def
    by (rule run_check_Next) (rule orderExists_found [OF assms(5)])
  also have "\<dots> = (Failed (Error 400 [Lit ''Order id does not match route id. Order: '',
                        Interp v, Lit '', Route: '', Interp (JStr (params rq)), Lit ''.'']), orders)"
    by (rule run_check_Fail) (simp add: matchIds_result [OF assms(1,4)] assms(2,3))
  finally show ?thesis .
qed

lemma mismatch_dish_update:
  assumes "data_get (body rq) ''id'' = Inr v" and "truthy v" and "v \<noteq> JStr (params rq)"
    and "\<not> throws v" and "findIndex (\<lambda>x. dish_id x = params rq) dishes = Some i"
    and "dishes_bodyDataHas ''name'' rq (Some i) dishes = Next (Some i)"
    and "dishes_bodyDataHas ''description'' rq (Some i) dishes = Next (Some i)"
    and "hasPrice rq (Some i) dishes = Next (Some i)"
    and "dishes_bodyDataHas ''price'' rq (Some i) dishes = Next (Some i)"
    and "dishes_bodyDataHas ''image_url'' rq (Some i) dishes = Next (Some i)"
  shows "run dishes_exports_update rq l dishes =
           (Failed (Error 400 [Lit ''Dish id does not match route id. Dish: '', Interp v,
                               Lit '', Route: '', Interp (JStr (params rq))]), dishes)"
proof -
  let ?vs = "[dishes_bodyDataHas ''name'', dishes_bodyDataHas ''description'', hasPrice,
              dishes_bodyDataHas ''price'', dishes_bodyDataHas ''image_url'']"
  have "run dishes_exports_update rq l dishes =
          run (map check ?vs @ [check idMatch, dishes_update]) rq (Some i) dishes"
    unfolding dishes_exports_update_def
    using dishExists_found [OF assms(5), of l] by (simp add: run_check_Next del: run.simps)
  also have "\<dots> = run [check idMatch, dishes_update] rq (Some i) dishes"
    by (rule run_pass) (simp add: assms(6-10))
  also have "\<dots> = (Failed (Error 400 [Lit ''Dish id does not match route id. Dish: '',
                        Interp v, Lit '', Route: '', Interp (JStr (params rq))]), dishes)"
    by (rule run_check_Fail) (simp add: idMatch_result [OF assms(1,4)] assms(2,3))
  finally show ?thesis .
qed

text \<open>
  C8, as amended. Where the body of an update request supplies a truthy \<open>id\<close> that differs
  from the route's id (and can be converted to a string), the id check fails with status
  400 and a message naming both, for orders \<open>Order id does not match route id. Order:
  <body>, Route: <route>.\<close>; this is the outcome of an order update whenever the order
  exists, and of a dish update whenever the dish exists and the presence and price checks,
  which run before the id check, pass. Where the body's \<open>id\<close> is absent or falsy
  (\<open>null\<close>, \<open>false\<close>, \<open>0\<close>, the empty string) the id check passes and the update goes
  on with the remaining functions of the chain.
\<close>

theorem id_must_match_route:
  "(data_get (body rq) ''id'' = Inr v \<and> truthy v \<and> v \<noteq> JStr (params rq) \<and> \<not> throws v \<longrightarrow>
      matchIds rq l orders =
        Fail (Error 400 [Lit ''Order id does not match route id. Order: '', Interp v,
                         Lit '', Route: '', Interp (JStr (params rq)), Lit ''.'']) \<and>
      idMatch rq l dishes =
        Fail (Error 400 [Lit ''Dish id does not match route id. Dish: '', Interp v,
                         Lit '', Route: '', Interp (JStr (params rq))]) \<and>
      (\<forall>i. findIndex (\<lambda>x. order_id x = params rq) orders = Some i \<longrightarrow>
           run orders_exports_update rq l orders =
             (Failed (Error 400 [Lit ''Order id does not match route id. Order: '', Interp v,
                                 Lit '', Route: '', Interp (JStr (params rq)), Lit ''.'']),
              orders)) \<and>
      (\<forall>i. findIndex (\<lambda>x. dish_id x = params rq) dishes = Some i \<and>
           dishes_bodyDataHas ''name'' rq (Some i) dishes = Next (Some i) \<and>
           dishes_bodyDataHas ''description'' rq (Some i) dishes = Next (Some i) \<and>
           hasPrice rq (Some i) dishes = Next (Some i) \<and>
           dishes_bodyDataHas ''price'' rq (Some i) dishes = Next (Some i) \<and>
           dishes_bodyDataHas ''image_url'' rq (Some i) dishes = Next (Some i) \<longrightarrow>
           run dishes_exports_update rq l dishes =
             (Failed (Error 400 [Lit ''Dish id does not match route id. Dish: '', Interp v,
                                 Lit '', Route: '', Interp (JStr (params rq))]), dishes))) \<and>
   (data_get (body rq) ''id'' = Inr v \<and> \<not> truthy v \<longrightarrow>
      matchIds rq l orders = Next l \<and> idMatch rq l dishes = Next l \<and>
      run (check matchIds # rest) rq l orders = run rest rq l orders \<and>
      run (check idMatch # rest') rq l dishes = run rest' rq l dishes) \<and>
   render [Lit ''Order id does not match route id. Order: '', Interp (JStr s),
           Lit '', Route: '', Interp (JStr t), Lit ''.''] =
     Some (''Order id does not match route id. Order: '' @ s @ '', Route: '' @ t @ ''.'')"
proof (intro conjI impI allI)
  assume a: "data_get (body rq) ''id'' = Inr v \<and> truthy v \<and> v \<noteq> JStr (params rq) \<and> \<not> throws v"
  then show "matchIds rq l orders =
        Fail (Error 400 [Lit ''Order id does not match route id. Order: '', Interp v,
                         Lit '', Route: '', Interp (JStr (params rq)), Lit ''.''])"
    by (simp add: matchIds_result)
  from a show "idMatch rq l dishes =
        Fail (Error 400 [Lit ''Dish id does not match route id. Dish: '', Interp v,
                         Lit '', Route: '', Interp (JStr (params rq))])"
    by (simp add: idMatch_result)
  {
    fix i
    assume "findIndex (\<lambda>x. order_id x = params rq) orders = Some i"
    with a show "run orders_exports_update rq l orders =
             (Failed (Error 400 [Lit ''Order id does not match route id. Order: '', Interp v,
                                 Lit '', Route: '', Interp (JStr (params rq)), Lit ''.'']),
              orders)"
      by (simp add: mismatch_order_update)
  }
  {
    fix i
    assume "findIndex (\<lambda>x. dish_id x = params rq) dishes = Some i \<and>
           dishes_bodyDataHas ''name'' rq (Some i) dishes = Next (Some i) \<and>
           dishes_bodyDataHas ''description'' rq (Some i) dishes = Next (Some i) \<and>
           hasPrice rq (Some i) dishes = Next (Some i) \<and>
           dishes_bodyDataHas ''price'' rq (Some i) dishes = Next (Some i) \<and>
           dishes_bodyDataHas ''image_url'' rq (Some i) dishes = Next (Some i)"
    with a show "run dishes_exports_update rq l dishes =
             (Failed (Error 400 [Lit ''Dish id does not match route id. Dish: '', Interp v,
                                 Lit '', Route: '', Interp (JStr (params rq))]), dishes)"
      by (simp add: mismatch_dish_update)
  }
next
  assume b: "data_get (body rq) ''id'' = Inr v \<and> \<not> truthy v"
  then have nt: "\<not> throws v" by (simp add: falsy_never_throws)
  from b nt show m: "matchIds rq l orders = Next l"
    by (simp add: matchIds_result)
  from b nt show d: "idMatch rq l dishes = Next l"
    by (simp add: idMatch_result)
  from m show "run (check matchIds # rest) rq l orders = run rest rq l orders"
    by (rule run_check_Next)
  from d show "run (check idMatch # rest') rq l dishes = run rest' rq l dishes"
    by (rule run_check_Next)
next
  show "render [Lit ''Order id does not match route id. Order: '', Interp (JStr s),
           Lit '', Route: '', Interp (JStr t), Lit ''.''] =
     Some (''Order id does not match route id. Order: '' @ s @ '', Route: '' @ t @ ''.'')"
    by simp
qed

text \<open>The body id 6 on the route of order 7, the body id 4 on the route of dish 3, and a body id \<open>null\<close>.\<close>

theorem id_must_match_route_witness:
  "run orders_exports_update \<lparr>params = ''7'', body = order_update_body (JStr ''6'')\<rparr> None
     [order7 (JStr ''pending'')] =
     (Failed (Error 400 [Lit ''Order id does not match route id. Order: '', Interp (JStr ''6''),
                         Lit '', Route: '', Interp (JStr ''7''), Lit ''.'']),
      [order7 (JStr ''pending'')]) \<and>
   render [Lit ''Order id does not match route id. Order: '', Interp (JStr ''6''),
           Lit '', Route: '', Interp (JStr ''7''), Lit ''.''] =
     Some ''Order id does not match route id. Order: 6, Route: 7.'' \<and>
   run dishes_exports_update \<lparr>params = ''3'', body = dish_update_body (JStr ''4'')\<rparr> None
     [dish3] =
     (Failed (Error 400 [Lit ''Dish id does not match route id. Dish: '', Interp (JStr ''4''),
                         Lit '', Route: '', Interp (JStr ''3'')]), [dish3]) \<and>
   matchIds \<lparr>params = ''7'', body = order_update_body JNull\<rparr> None
     [order7 (JStr ''pending'')] = Next None \<and>
   idMatch \<lparr>params = ''3'', body = dish_update_body JNull\<rparr> None [dish3] = Next None"
proof -
  let ?o = "\<lparr>params = ''7'', body = order_update_body (JStr ''6'')\<rparr>"
  let ?d = "\<lparr>params = ''3'', body = dish_update_body (JStr ''4'')\<rparr>"
  let ?on = "\<lparr>params = ''7'', body = order_update_body JNull\<rparr>"
  let ?dn = "\<lparr>params = ''3'', body = dish_update_body JNull\<rparr>"
  have o: "data_get (body ?o) ''id'' = Inr (JStr ''6'') \<and> truthy (JStr ''6'') \<and>
           JStr ''6'' \<noteq> JStr (params ?o) \<and> \<not> throws (JStr ''6'')"
    by code_simp
  have fo: "findIndex (\<lambda>x. order_id x = params ?o) [order7 (JStr ''pending'')] = Some 0"
    by code_simp
  have d: "data_get (body ?d) ''id'' = Inr (JStr ''4'') \<and> truthy (JStr ''4'') \<and>
           JStr ''4'' \<noteq> JStr (params ?d) \<and> \<not> throws (JStr ''4'')"
    by code_simp
  have fd: "findIndex (\<lambda>x. dish_id x = params ?d) [dish3] = Some 0 \<and>
           dishes_bodyDataHas ''name'' ?d (Some 0) [dish3] = Next (Some 0) \<and>
           dishes_bodyDataHas ''description'' ?d (Some 0) [dish3] = Next (Some 0) \<and>
           hasPrice ?d (Some 0) [dish3] = Next (Some 0) \<and>
           dishes_bodyDataHas ''price'' ?d (Some 0) [dish3] = Next (Some 0) \<and>
           dishes_bodyDataHas ''image_url'' ?d (Some 0) [dish3] = Next (Some 0)"
    by code_simp
  have n: "data_get (body ?on) ''id'' = Inr JNull \<and> \<not> truthy JNull"
    by code_simp
  have m: "data_get (body ?dn) ''id'' = Inr JNull \<and> \<not> truthy JNull"
    by code_simp
  note t = id_must_match_route
  from o fo t [where rq = ?o and v = "JStr ''6''" and l = None
      and orders = "[order7 (JStr ''pending'')]"]
  have 1: "run orders_exports_update ?o None [order7 (JStr ''pending'')] =
     (Failed (Error 400 [Lit ''Order id does not match route id. Order: '', Interp (JStr ''6''),
                         Lit '', Route: '', Interp (JStr ''7''), Lit ''.'']),
      [order7 (JStr ''pending'')])"
    by simp
  from t [where s = "''6''" and t = "''7''"]
  have 2: "render [Lit ''Order id does not match route id. Order: '', Interp (JStr ''6''),
           Lit '', Route: '', Interp (JStr ''7''), Lit ''.''] =
     Some ''Order id does not match route id. Order: 6, Route: 7.''"
    by simp
  from d fd t [where rq = ?d and v = "JStr ''4''" and l = None and dishes = "[dish3]"]
  have 3: "run dishes_exports_update ?d None [dish3] =
     (Failed (Error 400 [Lit ''Dish id does not match route id. Dish: '', Interp (JStr ''4''),
                         Lit '', Route: '', Interp (JStr ''3'')]), [dish3])"
    by simp
  from n t [where rq = ?on and v = JNull and l = None and orders = "[order7 (JStr ''pending'')]"]
  have 4: "matchIds ?on None [order7 (JStr ''pending'')] = Next None"
    by blast
  from m t [where rq = ?dn and v = JNull and l = None and dishes = "[dish3]"]
  have 5: "idMatch ?dn None [dish3] = Next None"
    by blast
  from 1 2 3 4 5 show ?thesis by blast
qed

text \<open>The body id 0 differs from the route id 7, yet the update of order 7 succeeds: a falsy \<open>id\<close> is not compared.\<close>

theorem falsy_body_id_is_not_compared:
  "data_get (order_update_body (JNum (Finite 0))) ''id'' = Inr (JNum (Finite 0)) \<and>
   JNum (Finite 0) \<noteq> JStr ''7'' \<and>
   run orders_exports_update \<lparr>params = ''7'', body = order_update_body (JNum (Finite 0))\<rparr>
     None [order7 (JStr ''pending'')] = (Replied 200 (Some order7_updated), [order7_updated])"
  by code_simp

lemma distinct_remove_nth:
  assumes "distinct ys"
  shows "distinct (take i ys @ drop (Suc i) ys)"
proof -
  from assms have "distinct (take i ys @ drop i ys)" by simp
  then have "set (take i ys) \<inter> set (drop i ys) = {}"
    by (simp only: distinct_append)
  moreover have "set (drop (Suc i) ys) \<subseteq> set (drop i ys)"
    by (rule set_drop_subset_set_drop) simp
  ultimately have "set (take i ys) \<inter> set (drop (Suc i) ys) = {}" by blast
  with assms show ?thesis by simp
qed

lemma distinct_map_remove:
  assumes "distinct (map f xs)"
  shows "distinct (map f (take i xs @ drop (Suc i) xs))"
proof -
  have "map f (take i xs @ drop (Suc i) xs) =
          take i (map f xs) @ drop (Suc i) (map f xs)"
    by (simp add: take_map drop_map)
  with distinct_remove_nth [OF assms, of i] show ?thesis by simp
qed

lemma orders_destroy_chain:
  assumes "run orders_exports_destroy rq l os = (Replied c r, os')"
  shows "\<exists>i. findIndex (\<lambda>x. order_id x = params rq) os = Some i \<and>
             os' = take i os @ drop (Suc i) os"
proof -
  from orderExists_cases [of rq os l] show ?thesis
  proof (elim disjE exE conjE)
    fix i
    assume f: "findIndex (\<lambda>x. order_id x = params rq) os = Some i"
      and n: "orderExists rq l os = Next (Some i)"
    from n have 1: "run orders_exports_destroy rq l os =
                      run [check orderStatus, orders_destroy] rq (Some i) os"
      unfolding orders_exports_destroy_def by (rule run_check_Next)
    show ?thesis
    proof (cases "order_status (os ! i) = JStr ''pending''")
      case True
      then have "run [check orderStatus, orders_destroy] rq (Some i) os =
                   run [orders_destroy] rq (Some i) os"
        by (intro run_check_Next) (simp add: orderStatus_result [OF f])
      with 1 assms f show ?thesis by (simp add: orders_destroy_result [OF f])
    next
      case False
      then have "run [check orderStatus, orders_destroy] rq (Some i) os =
                   (Failed (Error 400 [Lit ''An order cannot be deleted unless it is pending.'']),
                    os)"
        by (intro run_check_Fail) (simp add: orderStatus_result [OF f])
      with 1 assms show ?thesis by simp
    qed
  next
    assume "orderExists rq l os =
              Fail (Error 404 [Lit ''Order id not found: '', Interp (JStr (params rq))])"
    then have "run orders_exports_destroy rq l os =
                 (Failed (Error 404 [Lit ''Order id not found: '', Interp (JStr (params rq))]), os)"
      unfolding orders_exports_destroy_def by (rule run_check_Fail)
    with assms show ?thesis by simp
  qed
qed

lemma run_cases:
  obtains (replied) c r s' where "run ch rq l s = (Replied c r, s')"
  | (other) out s' where "run ch rq l s = (out, s')" and "\<forall>c r. out \<noteq> Replied c r"
proof (cases "run ch rq l s")
  case (Pair out s')
  then show thesis
    by (cases out) (auto intro: replied other)
qed

text \<open>
  The ids of the orders stay pairwise distinct under create, update and delete (and those
  of the dishes under create and update).
\<close>

lemma order_ids_stay_distinct:
  assumes "distinct (map order_id orders)"
  shows "distinct (map order_id (snd (run orders_exports_create rq l orders)))"
    and "distinct (map order_id (snd (run orders_exports_update rq l orders)))"
    and "distinct (map order_id (snd (run orders_exports_destroy rq l orders)))"
proof -
  show "distinct (map order_id (snd (run orders_exports_create rq l orders)))"
  proof (cases rule: run_cases [of orders_exports_create rq l orders])
    case (replied c r s')
    then have "orders_create rq l orders = (Send c r, s')"
      by (rule orders_create_chain(1))
    then obtain new where "s' = orders @ [new]" "order_id new = nextId (map order_id orders)"
      by (auto simp: orders_create_def and_then_def split: sum.splits if_splits)
    with assms replied nextId_fresh [of "map order_id orders"] show ?thesis by simp
  next
    case (other out s')
    with orders_create_failed [of rq l orders out s'] assms show ?thesis by simp
  qed
  show "distinct (map order_id (snd (run orders_exports_update rq l orders)))"
  proof (cases rule: run_cases [of orders_exports_update rq l orders])
    case (replied c r s')
    then obtain i where u: "orders_update rq (Some i) orders = (Send c r, s')"
      and h: "orders_bodyDataHas ''dishes'' rq (Some i) orders = Next (Some i)"
      by (rule orders_update_chain)
    from orders_update_Send [OF u h] have "map order_id s' = map order_id orders"
      by (auto simp: map_id_update)
    with assms replied show ?thesis by simp
  next
    case (other out s')
    with orders_update_failed [of rq l orders out s'] assms show ?thesis by simp
  qed
  show "distinct (map order_id (snd (run orders_exports_destroy rq l orders)))"
  proof (cases rule: run_cases [of orders_exports_destroy rq l orders])
    case (replied c r s')
    from orders_destroy_chain [OF replied] assms replied show ?thesis
      by (auto simp del: map_append intro: distinct_map_remove)
  next
    case (other out s')
    with orders_destroy_failed [of rq l orders out s'] assms show ?thesis by simp
  qed
qed

lemma dishes_bodyDataHas_Next:
  "dishes_bodyDataHas p rq l s = Next l' \<Longrightarrow> \<exists>v. data_get (body rq) p = Inr v \<and> truthy v"
  by (auto simp: dishes_bodyDataHas_def next_error_def split: sum.splits if_splits)

lemma dishes_create_ok:
  assumes "data_get (body rq) p = Inr v"
  shows "\<exists>new. dishes_create rq l ds = (Send 201 (Some new), ds @ [new]) \<and>
           dish_id new = nextId (map dish_id ds) \<and>
           data_get (body rq) ''name'' = Inr (dish_name new) \<and>
           data_get (body rq) ''description'' = Inr (dish_description new) \<and>
           data_get (body rq) ''price'' = Inr (dish_price new) \<and>
           data_get (body rq) ''image_url'' = Inr (dish_image_url new)"
proof -
  from data_get_other [OF assms] obtain a where a: "data_get (body rq) ''name'' = Inr a" ..
  from data_get_other [OF assms] obtain b where b: "data_get (body rq) ''description'' = Inr b" ..
  from data_get_other [OF assms] obtain c where c: "data_get (body rq) ''price'' = Inr c" ..
  from data_get_other [OF assms] obtain d where d: "data_get (body rq) ''image_url'' = Inr d" ..
  from a b c d show ?thesis
    by (simp add: dishes_create_def and_then_def)
qed

lemma dishes_checks_pass_reply:
  assumes "dishes_bodyDataHas ''name'' rq l dishes = Next l"
    and "dishes_bodyDataHas ''description'' rq l dishes = Next l"
    and "hasPrice rq l dishes = Next l"
    and "dishes_bodyDataHas ''price'' rq l dishes = Next l"
    and "dishes_bodyDataHas ''image_url'' rq l dishes = Next l"
  shows "run dishes_exports_create rq l dishes = run [dishes_create] rq l dishes"
proof -
  have "run (map check [dishes_bodyDataHas ''name'', dishes_bodyDataHas ''description'',
                        hasPrice, dishes_bodyDataHas ''price'',
                        dishes_bodyDataHas ''image_url''] @ [dishes_create]) rq l dishes =
          run [dishes_create] rq l dishes"
    by (rule run_pass) (simp add: assms)
  then show ?thesis by (simp add: dishes_exports_create_def del: run.simps)
qed

lemma orders_checks_pass_reply:
  assumes "orders_bodyDataHas ''deliverTo'' rq l orders = Next l"
    and "orders_bodyDataHas ''mobileNumber'' rq l orders = Next l"
    and "orders_bodyDataHas ''dishes'' rq l orders = Next l"
    and "dishProperties rq l orders = Next l"
  shows "run orders_exports_create rq l orders = run [orders_create] rq l orders"
proof -
  have "run (map check [orders_bodyDataHas ''deliverTo'', orders_bodyDataHas ''mobileNumber'',
                        orders_bodyDataHas ''dishes'', dishProperties] @ [orders_create])
          rq l orders = run [orders_create] rq l orders"
    by (rule run_pass) (simp add: assms)
  then show ?thesis by (simp add: orders_exports_create_def del: run.simps)
qed

text \<open>
  C9. Whenever the body of a create request for a dish or an order passes every check of
  the create chain, the create replies 201 with a new record appended to the collection;
  reading the returned \<open>id\<close> afterwards yields that record, and each of its fields other
  than \<open>id\<close> is the value the body carries for it.
\<close>

theorem create_then_read:
  "(dishes_bodyDataHas ''name'' rq l dishes = Next l \<and>
    dishes_bodyDataHas ''description'' rq l dishes = Next l \<and>
    hasPrice rq l dishes = Next l \<and>
    dishes_bodyDataHas ''price'' rq l dishes = Next l \<and>
    dishes_bodyDataHas ''image_url'' rq l dishes = Next l \<longrightarrow>
      (\<exists>new. run dishes_exports_create rq l dishes =
               (Replied 201 (Some new), dishes @ [new]) \<and>
         run dishes_exports_read \<lparr>params = dish_id new, body = b\<rparr> k (dishes @ [new]) =
           (Replied 200 (Some new), dishes @ [new]) \<and>
         data_get (body rq) ''name'' = Inr (dish_name new) \<and>
         data_get (body rq) ''description'' = Inr (dish_description new) \<and>
         data_get (body rq) ''price'' = Inr (dish_price new) \<and>
         data_get (body rq) ''image_url'' = Inr (dish_image_url new))) \<and>
   (orders_bodyDataHas ''deliverTo'' rq' l' orders = Next l' \<and>
    orders_bodyDataHas ''mobileNumber'' rq' l' orders = Next l' \<and>
    orders_bodyDataHas ''dishes'' rq' l' orders = Next l' \<and>
    dishProperties rq' l' orders = Next l' \<longrightarrow>
      (\<exists>new. run orders_exports_create rq' l' orders =
               (Replied 201 (Some new), orders @ [new]) \<and>
         run orders_exports_read \<lparr>params = order_id new, body = b\<rparr> k (orders @ [new]) =
           (Replied 200 (Some new), orders @ [new]) \<and>
         data_get (body rq') ''deliverTo'' = Inr (order_deliverTo new) \<and>
         data_get (body rq') ''mobileNumber'' = Inr (order_mobileNumber new) \<and>
         data_get (body rq') ''status'' = Inr (order_status new) \<and>
         data_get (body rq') ''dishes'' = Inr (order_dishes new)))"
proof (intro conjI impI)
  assume a: "dishes_bodyDataHas ''name'' rq l dishes = Next l \<and>
    dishes_bodyDataHas ''description'' rq l dishes = Next l \<and>
    hasPrice rq l dishes = Next l \<and>
    dishes_bodyDataHas ''price'' rq l dishes = Next l \<and>
    dishes_bodyDataHas ''image_url'' rq l dishes = Next l"
  then have r: "run dishes_exports_create rq l dishes = run [dishes_create] rq l dishes"
    by (intro dishes_checks_pass_reply) simp_all
  from a dishes_bodyDataHas_Next [of "''name''" rq l dishes l] obtain v where
    "data_get (body rq) ''name'' = Inr v" by blast
  from dishes_create_ok [OF this, of l dishes] obtain new where
    new: "dishes_create rq l dishes = (Send 201 (Some new), dishes @ [new])"
      "dish_id new = nextId (map dish_id dishes)"
      "data_get (body rq) ''name'' = Inr (dish_name new)"
      "data_get (body rq) ''description'' = Inr (dish_description new)"
      "data_get (body rq) ''price'' = Inr (dish_price new)"
      "data_get (body rq) ''image_url'' = Inr (dish_image_url new)"
    by blast
  from new(2) have "dish_id new \<notin> set (map dish_id dishes)"
    using nextId_fresh [of "map dish_id dishes"] by simp
  then have "run dishes_exports_read \<lparr>params = dish_id new, body = b\<rparr> k (dishes @ [new]) =
               (Replied 200 (Some new), dishes @ [new])"
    by (rule dishes_read_new)
  moreover from r new(1) have "run dishes_exports_create rq l dishes =
               (Replied 201 (Some new), dishes @ [new])"
    by simp
  ultimately show "\<exists>new. run dishes_exports_create rq l dishes =
               (Replied 201 (Some new), dishes @ [new]) \<and>
         run dishes_exports_read \<lparr>params = dish_id new, body = b\<rparr> k (dishes @ [new]) =
           (Replied 200 (Some new), dishes @ [new]) \<and>
         data_get (body rq) ''name'' = Inr (dish_name new) \<and>
         data_get (body rq) ''description'' = Inr (dish_description new) \<and>
         data_get (body rq) ''price'' = Inr (dish_price new) \<and>
         data_get (body rq) ''image_url'' = Inr (dish_image_url new)"
    using new(3-6) by blast
next
  assume a: "orders_bodyDataHas ''deliverTo'' rq' l' orders = Next l' \<and>
    orders_bodyDataHas ''mobileNumber'' rq' l' orders = Next l' \<and>
    orders_bodyDataHas ''dishes'' rq' l' orders = Next l' \<and>
    dishProperties rq' l' orders = Next l'"
  then have r: "run orders_exports_create rq' l' orders = run [orders_create] rq' l' orders"
    by (intro orders_checks_pass_reply) simp_all
  from a orders_bodyDataHas_Next [of "''dishes''" rq' l' orders l'] obtain dv where
    dv: "data_get (body rq') ''dishes'' = Inr dv" "truthy dv" by blast
  then have "dv \<noteq> JUndefined" by auto
  from orders_create_ok [OF dv(1) this, of l' orders] obtain new where
    new: "orders_create rq' l' orders = (Send 201 (Some new), orders @ [new])"
      "order_id new = nextId (map order_id orders)"
      "data_get (body rq') ''deliverTo'' = Inr (order_deliverTo new)"
      "data_get (body rq') ''mobileNumber'' = Inr (order_mobileNumber new)"
      "data_get (body rq') ''status'' = Inr (order_status new)"
      "data_get (body rq') ''dishes'' = Inr (order_dishes new)"
    by blast
  from new(2) have "order_id new \<notin> set (map order_id orders)"
    using nextId_fresh [of "map order_id orders"] by simp
  then have "run orders_exports_read \<lparr>params = order_id new, body = b\<rparr> k (orders @ [new]) =
               (Replied 200 (Some new), orders @ [new])"
    by (rule orders_read_new)
  moreover from r new(1) have "run orders_exports_create rq' l' orders =
               (Replied 201 (Some new), orders @ [new])"
    by simp
  ultimately show "\<exists>new. run orders_exports_create rq' l' orders =
               (Replied 201 (Some new), orders @ [new]) \<and>
         run orders_exports_read \<lparr>params = order_id new, body = b\<rparr> k (orders @ [new]) =
           (Replied 200 (Some new), orders @ [new]) \<and>
         data_get (body rq') ''deliverTo'' = Inr (order_deliverTo new) \<and>
         data_get (body rq') ''mobileNumber'' = Inr (order_mobileNumber new) \<and>
         data_get (body rq') ''status'' = Inr (order_status new) \<and>
         data_get (body rq') ''dishes'' = Inr (order_dishes new)"
    using new(3-6) by blast
qed

text \<open>
  The taco passes the five checks: it is created next to dish 3 as dish 4 and read back
  under the id 4. The order passes the four checks: it is created next to order 7 as order
  8 and read back under the id 8.
\<close>

theorem create_then_read_witness:
  "run dishes_exports_create \<lparr>params = [], body = taco\<rparr> None [dish3] =
     (Replied 201 (Some dish4), [dish3, dish4]) \<and>
   run dishes_exports_read \<lparr>params = ''4'', body = JUndefined\<rparr> None [dish3, dish4] =
     (Replied 200 (Some dish4), [dish3, dish4]) \<and>
   data_get taco ''price'' = Inr (dish_price dish4) \<and>
   run orders_exports_create \<lparr>params = [], body = order_body\<rparr> None
     [order7 (JStr ''pending'')] =
     (Replied 201 (Some order8), [order7 (JStr ''pending''), order8]) \<and>
   run orders_exports_read \<lparr>params = ''8'', body = JUndefined\<rparr> None
     [order7 (JStr ''pending''), order8] =
     (Replied 200 (Some order8), [order7 (JStr ''pending''), order8]) \<and>
   data_get order_body ''dishes'' = Inr (order_dishes order8)"
proof -
  let ?d = "\<lparr>params = [], body = taco\<rparr>"
  let ?o = "\<lparr>params = [], body = order_body\<rparr>"
  let ?os = "[order7 (JStr ''pending'')]"
  have hd: "dishes_bodyDataHas ''name'' ?d None [dish3] = Next None \<and>
    dishes_bodyDataHas ''description'' ?d None [dish3] = Next None \<and>
    hasPrice ?d None [dish3] = Next None \<and>
    dishes_bodyDataHas ''price'' ?d None [dish3] = Next None \<and>
    dishes_bodyDataHas ''image_url'' ?d None [dish3] = Next None"
    by code_simp
  have ho: "orders_bodyDataHas ''deliverTo'' ?o None ?os = Next None \<and>
    orders_bodyDataHas ''mobileNumber'' ?o None ?os = Next None \<and>
    orders_bodyDataHas ''dishes'' ?o None ?os = Next None \<and>
    dishProperties ?o None ?os = Next None"
    by code_simp
  have cd: "run dishes_exports_create ?d None [dish3] =
              (Replied 201 (Some dish4), [dish3, dish4])"
    by code_simp
  have co: "run orders_exports_create ?o None ?os =
              (Replied 201 (Some order8), [order7 (JStr ''pending''), order8])"
    by code_simp
  have i: "dish_id dish4 = ''4''" "order_id order8 = ''8''"
    by (simp_all add: dish4_def order8_def)
  note t = create_then_read
      [where rq = ?d and l = None and dishes = "[dish3]" and rq' = ?o and l' = None
         and orders = ?os and b = JUndefined and k = None]
  from t hd obtain new where
    "run dishes_exports_create ?d None [dish3] = (Replied 201 (Some new), [dish3] @ [new])"
    "run dishes_exports_read \<lparr>params = dish_id new, body = JUndefined\<rparr> None ([dish3] @ [new]) =
       (Replied 200 (Some new), [dish3] @ [new])"
    "data_get (body ?d) ''price'' = Inr (dish_price new)"
    by blast
  with cd i have 1: "run dishes_exports_read \<lparr>params = ''4'', body = JUndefined\<rparr> None
                       [dish3, dish4] = (Replied 200 (Some dish4), [dish3, dish4])"
    and 2: "data_get taco ''price'' = Inr (dish_price dish4)"
    by auto
  from t ho obtain new where
    "run orders_exports_create ?o None ?os = (Replied 201 (Some new), ?os @ [new])"
    "run orders_exports_read \<lparr>params = order_id new, body = JUndefined\<rparr> None (?os @ [new]) =
       (Replied 200 (Some new), ?os @ [new])"
    "data_get (body ?o) ''dishes'' = Inr (order_dishes new)"
    by blast
  with co i have 3: "run orders_exports_read \<lparr>params = ''8'', body = JUndefined\<rparr> None
                       [order7 (JStr ''pending''), order8] =
                       (Replied 200 (Some order8), [order7 (JStr ''pending''), order8])"
    and 4: "data_get order_body ''dishes'' = Inr (order_dishes order8)"
    by auto
  from cd co 1 2 3 4 show ?thesis by blast
qed

lemma orders_bodyDataHas_eq:
  "data_get (body rq) p = Inr v \<Longrightarrow>
   orders_bodyDataHas p rq l s =
     (if truthy v then Next l
      else Fail (Error 400 [Lit ''Order must include a '', Interp (JStr p)]))"
  by (simp add: orders_bodyDataHas_def next_error_def)

lemma orders_bodyDataHas_Next_or_400:
  assumes "data_get (body rq) p' = Inr v"
  shows "orders_bodyDataHas p rq l s = Next l \<or>
         (\<exists>m. orders_bodyDataHas p rq l s = Fail (Error 400 m))"
proof -
  from data_get_other [OF assms] obtain w where "data_get (body rq) p = Inr w" ..
  then show ?thesis by (simp add: orders_bodyDataHas_eq)
qed

lemma matchIds_Next_or_400:
  "data_get (body rq) ''id'' = Inr v \<Longrightarrow> \<not> throws v \<Longrightarrow>
   matchIds rq l s = Next l \<or> (\<exists>m. matchIds rq l s = Fail (Error 400 m))"
  by (simp add: matchIds_result)

lemma orderDelivered_Next_or_400:
  "findIndex P s = Some i \<Longrightarrow>
   orderDelivered rq (Some i) s = Next (Some i) \<or>
   (\<exists>m. orderDelivered rq (Some i) s = Fail (Error 400 m))"
  by (simp add: orderDelivered_def deref_found next_error_Lit)

lemma statusInvalid_Next_or_400:
  assumes "data_get (body rq) p = Inr v"
  shows "statusInvalid rq l s = Next l \<or> (\<exists>m. statusInvalid rq l s = Fail (Error 400 m))"
proof -
  from data_get_other [OF assms] obtain w where "data_get (body rq) ''status'' = Inr w" ..
  then show ?thesis by (simp add: statusInvalid_def next_error_Lit)
qed

lemma bad_dishes_create:
  assumes "data_get (body rq) ''dishes'' = Inr d"
    and "dishProperties rq l orders = Fail (Error 400 m0)"
  shows "\<exists>m. run orders_exports_create rq l orders = (Failed (Error 400 m), orders)"
proof -
  have "\<exists>m. run (map check [orders_bodyDataHas ''deliverTo'', orders_bodyDataHas ''mobileNumber'',
                             orders_bodyDataHas ''dishes''] @
                check dishProperties # [orders_create]) rq l orders =
              (Failed (Error 400 m), orders)"
  proof (rule run_prefix_400)
    show "\<forall>v \<in> set [orders_bodyDataHas ''deliverTo'', orders_bodyDataHas ''mobileNumber'',
                       orders_bodyDataHas ''dishes''].
            v rq l orders = Next l \<or> (\<exists>m. v rq l orders = Fail (Error 400 m))"
      using orders_bodyDataHas_Next_or_400 [OF assms(1)] by simp
    show "dishProperties rq l orders = Fail (Error 400 m0)" by (rule assms(2))
  qed
  then show ?thesis by (simp add: orders_exports_create_def del: run.simps)
qed

lemma bad_dishes_update:
  assumes "data_get (body rq) ''dishes'' = Inr d"
    and "dishProperties rq (Some j) orders = Fail (Error 400 m0)"
    and "findIndex (\<lambda>x. order_id x = params rq) orders = Some j"
    and "data_get (body rq) ''id'' = Inr v" and "\<not> throws v"
  shows "\<exists>m. run orders_exports_update rq l orders = (Failed (Error 400 m), orders)"
proof -
  let ?pre = "[matchIds, orderDelivered, orders_bodyDataHas ''deliverTo'',
               orders_bodyDataHas ''mobileNumber'', orders_bodyDataHas ''dishes'',
               orders_bodyDataHas ''status'', statusInvalid]"
  have "run orders_exports_update rq l orders =
          run (map check ?pre @ check dishProperties # [orders_update]) rq (Some j) orders"
    unfolding orders_exports_update_def
    using orderExists_found [OF assms(3), of l] by (simp add: run_check_Next del: run.simps)
  moreover have "\<exists>m. run (map check ?pre @ check dishProperties # [orders_update])
                        rq (Some j) orders = (Failed (Error 400 m), orders)"
  proof (rule run_prefix_400)
    show "\<forall>u \<in> set ?pre. u rq (Some j) orders = Next (Some j) \<or>
            (\<exists>m. u rq (Some j) orders = Fail (Error 400 m))"
      using orders_bodyDataHas_Next_or_400 [OF assms(1)] matchIds_Next_or_400 [OF assms(4,5)]
        orderDelivered_Next_or_400 [OF assms(3)] statusInvalid_Next_or_400 [OF assms(1)]
      by simp
    show "dishProperties rq (Some j) orders = Fail (Error 400 m0)" by (rule assms(2))
  qed
  ultimately show ?thesis by simp
qed

lemma dishes_check_reached_create:
  assumes "orders_bodyDataHas ''deliverTo'' rq l orders = Next l"
    and "orders_bodyDataHas ''mobileNumber'' rq l orders = Next l"
    and "orders_bodyDataHas ''dishes'' rq l orders = Next l"
    and "dishProperties rq l orders = Fail e"
  shows "run orders_exports_create rq l orders = (Failed e, orders)"
proof -
  have "run (map check [orders_bodyDataHas ''deliverTo'', orders_bodyDataHas ''mobileNumber'',
                        orders_bodyDataHas ''dishes''] @
             [check dishProperties, orders_create]) rq l orders =
          run [check dishProperties, orders_create] rq l orders"
    by (rule run_pass) (simp add: assms)
  also have "\<dots> = (Failed e, orders)"
    using assms(4) by (rule run_check_Fail)
  finally show ?thesis by (simp add: orders_exports_create_def del: run.simps)
qed

lemma dishes_check_reached_update:
  assumes "findIndex (\<lambda>x. order_id x = params rq) orders = Some j"
    and "matchIds rq (Some j) orders = Next (Some j)"
    and "orderDelivered rq (Some j) orders = Next (Some j)"
    and "orders_bodyDataHas ''deliverTo'' rq (Some j) orders = Next (Some j)"
    and "orders_bodyDataHas ''mobileNumber'' rq (Some j) orders = Next (Some j)"
    and "orders_bodyDataHas ''dishes'' rq (Some j) orders = Next (Some j)"
    and "orders_bodyDataHas ''status'' rq (Some j) orders = Next (Some j)"
    and "statusInvalid rq (Some j) orders = Next (Some j)"
    and "dishProperties rq (Some j) orders = Fail e"
  shows "run orders_exports_update rq l orders = (Failed e, orders)"
proof -
  let ?pre = "[matchIds, orderDelivered, orders_bodyDataHas ''deliverTo'',
               orders_bodyDataHas ''mobileNumber'', orders_bodyDataHas ''dishes'',
               orders_bodyDataHas ''status'', statusInvalid]"
  have "run orders_exports_update rq l orders =
          run (map check ?pre @ [check dishProperties, orders_update]) rq (Some j) orders"
    unfolding orders_exports_update_def
    using orderExists_found [OF assms(1), of l] by (simp add: run_check_Next del: run.simps)
  also have "\<dots> = run [check dishProperties, orders_update] rq (Some j) orders"
    by (rule run_pass) (simp add: assms(2-8))
  also have "\<dots> = (Failed e, orders)"
    using assms(9) by (rule run_check_Fail)
  finally show ?thesis .
qed

lemma falsy_dishes_create:
  assumes "orders_bodyDataHas ''deliverTo'' rq l orders = Next l"
    and "orders_bodyDataHas ''mobileNumber'' rq l orders = Next l"
    and "data_get (body rq) ''dishes'' = Inr d" and "\<not> truthy d"
  shows "run orders_exports_create rq l orders =
           (Failed (Error 400 [Lit ''Order must include a '', Interp (JStr ''dishes'')]), orders)"
proof -
  have "run (map check [orders_bodyDataHas ''deliverTo'', orders_bodyDataHas ''mobileNumber''] @
             [check (orders_bodyDataHas ''dishes''), check dishProperties, orders_create])
          rq l orders =
          run [check (orders_bodyDataHas ''dishes''), check dishProperties, orders_create]
            rq l orders"
    by (rule run_pass) (simp add: assms)
  also have "\<dots> = (Failed (Error 400 [Lit ''Order must include a '',
                                       Interp (JStr ''dishes'')]), orders)"
    by (rule run_check_Fail) (rule orders_bodyDataHas_falsy [OF assms(3,4)])
  finally show ?thesis by (simp add: orders_exports_create_def del: run.simps)
qed

lemma falsy_dishes_update:
  assumes "findIndex (\<lambda>x. order_id x = params rq) orders = Some j"
    and "matchIds rq (Some j) orders = Next (Some j)"
    and "orderDelivered rq (Some j) orders = Next (Some j)"
    and "orders_bodyDataHas ''deliverTo'' rq (Some j) orders = Next (Some j)"
    and "orders_bodyDataHas ''mobileNumber'' rq (Some j) orders = Next (Some j)"
    and "data_get (body rq) ''dishes'' = Inr d" and "\<not> truthy d"
  shows "run orders_exports_update rq l orders =
           (Failed (Error 400 [Lit ''Order must include a '', Interp (JStr ''dishes'')]), orders)"
proof -
  let ?pre = "[matchIds, orderDelivered, orders_bodyDataHas ''deliverTo'',
               orders_bodyDataHas ''mobileNumber'']"
  let ?rest = "[check (orders_bodyDataHas ''dishes''), check (orders_bodyDataHas ''status''),
                check statusInvalid, check dishProperties, orders_update]"
  have "run orders_exports_update rq l orders = run (map check ?pre @ ?rest) rq (Some j) orders"
    unfolding orders_exports_update_def
    using orderExists_found [OF assms(1), of l] by (simp add: run_check_Next del: run.simps)
  also have "\<dots> = run ?rest rq (Some j) orders"
    by (rule run_pass) (simp add: assms(2-5))
  also have "\<dots> = (Failed (Error 400 [Lit ''Order must include a '',
                                       Interp (JStr ''dishes'')]), orders)"
    by (rule run_check_Fail) (rule orders_bodyDataHas_falsy [OF assms(6,7)])
  finally show ?thesis .
qed

lemma orders_update_missing:
  "findIndex (\<lambda>x. order_id x = params rq) orders = None \<Longrightarrow>
   run orders_exports_update rq l orders =
     (Failed (Error 404 [Lit ''Order id not found: '', Interp (JStr (params rq))]), orders)"
  unfolding orders_exports_update_def
  by (rule run_check_Fail) (simp add: orderExists_def next_error_def)

text \<open>
  C5, as amended. Take an order create request, or an order update request for an id that
  an order has and with a body \<open>id\<close> that can be converted to a string, whose body has a
  \<open>data\<close> that is not \<open>null\<close>. If \<open>dishes\<close> is missing, not an array or empty, the
  operation fails with status 400. If \<open>dishes\<close> is a non-empty array in which the first
  line whose \<open>quantity\<close> is missing, not an integer or less than 1 is an object whose
  \<open>id\<close> can be converted to a string, the lines before it being valid, the operation
  fails with status 400. The message is that of the first check that fails. When the checks
  before the dishes check pass, the operation ends with the failure of the dishes check:
  \<open>Order must include a dish\<close> for a \<open>dishes\<close> that is not an array or is empty, and a
  message naming the \<open>id\<close> of that first line otherwise. An absent or falsy \<open>dishes\<close> is
  stopped before, by the presence check, with the message \<open>Order must include a dishes\<close>,
  although the dishes check on its own answers \<open>Order must include a dish\<close> for it. An
  update request for an id that no order has fails with status 404. No create or update
  succeeds unless \<open>dishes\<close> is a non-empty array of lines with an integer \<open>quantity\<close> of
  at least 1, and the status of every error raised is 400, or 404 in the update chain.
\<close>

theorem dishes_of_an_order_are_checked:
  "(data_get (body rq) ''dishes'' = Inr d \<and> (d = JUndefined \<or> \<not> isArray d \<or> d = JArr []) \<longrightarrow>
      dishProperties rq l orders = Fail (Error 400 [Lit ''Order must include a dish'']) \<and>
      (\<exists>m. run orders_exports_create rq l orders = (Failed (Error 400 m), orders)) \<and>
      (\<forall>j v. findIndex (\<lambda>x. order_id x = params rq) orders = Some j \<and>
             data_get (body rq) ''id'' = Inr v \<and> \<not> throws v \<longrightarrow>
             (\<exists>m. run orders_exports_update rq l orders = (Failed (Error 400 m), orders)))) \<and>
   (data_get (body rq) ''dishes'' = Inr (JArr (pre @ bad # post)) \<and>
    (\<forall>x \<in> set pre. line_ok x) \<and> get bad ''quantity'' = Inr q \<and> \<not> quantity_ok q \<and>
    get bad ''id'' = Inr i \<and> \<not> throws i \<longrightarrow>
      dishProperties rq l orders =
        Fail (Error 400 [Lit ''Dish '', Interp i,
                         Lit '' must have a quantity that is an integer greater than 0'']) \<and>
      (\<exists>m. run orders_exports_create rq l orders = (Failed (Error 400 m), orders)) \<and>
      (\<forall>j v. findIndex (\<lambda>x. order_id x = params rq) orders = Some j \<and>
             data_get (body rq) ''id'' = Inr v \<and> \<not> throws v \<longrightarrow>
             (\<exists>m. run orders_exports_update rq l orders = (Failed (Error 400 m), orders)))) \<and>
   (orders_bodyDataHas ''deliverTo'' rq l orders = Next l \<and>
    orders_bodyDataHas ''mobileNumber'' rq l orders = Next l \<and>
    orders_bodyDataHas ''dishes'' rq l orders = Next l \<and>
    dishProperties rq l orders = Fail e \<longrightarrow>
      run orders_exports_create rq l orders = (Failed e, orders)) \<and>
   (findIndex (\<lambda>x. order_id x = params rq) orders = Some j \<and>
    matchIds rq (Some j) orders = Next (Some j) \<and>
    orderDelivered rq (Some j) orders = Next (Some j) \<and>
    orders_bodyDataHas ''deliverTo'' rq (Some j) orders = Next (Some j) \<and>
    orders_bodyDataHas ''mobileNumber'' rq (Some j) orders = Next (Some j) \<and>
    orders_bodyDataHas ''dishes'' rq (Some j) orders = Next (Some j) \<and>
    orders_bodyDataHas ''status'' rq (Some j) orders = Next (Some j) \<and>
    statusInvalid rq (Some j) orders = Next (Some j) \<and>
    dishProperties rq (Some j) orders = Fail e \<longrightarrow>
      run orders_exports_update rq l orders = (Failed e, orders)) \<and>
   (orders_bodyDataHas ''deliverTo'' rq l orders = Next l \<and>
    orders_bodyDataHas ''mobileNumber'' rq l orders = Next l \<and>
    data_get (body rq) ''dishes'' = Inr d \<and> \<not> truthy d \<longrightarrow>
      run orders_exports_create rq l orders =
        (Failed (Error 400 [Lit ''Order must include a '', Interp (JStr ''dishes'')]), orders)) \<and>
   (findIndex (\<lambda>x. order_id x = params rq) orders = Some j \<and>
    matchIds rq (Some j) orders = Next (Some j) \<and>
    orderDelivered rq (Some j) orders = Next (Some j) \<and>
    orders_bodyDataHas ''deliverTo'' rq (Some j) orders = Next (Some j) \<and>
    orders_bodyDataHas ''mobileNumber'' rq (Some j) orders = Next (Some j) \<and>
    data_get (body rq) ''dishes'' = Inr d \<and> \<not> truthy d \<longrightarrow>
      run orders_exports_update rq l orders =
        (Failed (Error 400 [Lit ''Order must include a '', Interp (JStr ''dishes'')]), orders)) \<and>
   (findIndex (\<lambda>x. order_id x = params rq) orders = None \<longrightarrow>
      run orders_exports_update rq l orders =
        (Failed (Error 404 [Lit ''Order id not found: '', Interp (JStr (params rq))]), orders)) \<and>
   (data_get (body rq) ''dishes'' = Inr d \<and> \<not> truthy d \<longrightarrow>
      orders_bodyDataHas ''dishes'' rq l orders =
        Fail (Error 400 [Lit ''Order must include a '', Interp (JStr ''dishes'')])) \<and>
   ((\<exists>c r. fst (run orders_exports_create rq l orders) = Replied c r) \<or>
    (\<exists>c r. fst (run orders_exports_update rq l orders) = Replied c r) \<longrightarrow>
      (\<exists>d. data_get (body rq) ''dishes'' = Inr d \<and> dishes_ok d)) \<and>
   (fst (run orders_exports_create rq l orders) = Failed e \<longrightarrow>
      e = TypeError \<or> (\<exists>m. e = Error 400 m)) \<and>
   (fst (run orders_exports_update rq l orders) = Failed e \<longrightarrow>
      e = TypeError \<or> (\<exists>m. e = Error 400 m) \<or> (\<exists>m. e = Error 404 m))"
proof -
  have A: "dishProperties rq l orders = Fail (Error 400 [Lit ''Order must include a dish'']) \<and>
      (\<exists>m. run orders_exports_create rq l orders = (Failed (Error 400 m), orders)) \<and>
      (\<forall>j v. findIndex (\<lambda>x. order_id x = params rq) orders = Some j \<and>
             data_get (body rq) ''id'' = Inr v \<and> \<not> throws v \<longrightarrow>
             (\<exists>m. run orders_exports_update rq l orders = (Failed (Error 400 m), orders)))"
    if h: "data_get (body rq) ''dishes'' = Inr d \<and> (d = JUndefined \<or> \<not> isArray d \<or> d = JArr [])"
  proof (intro conjI allI impI)
    from h have g: "data_get (body rq) ''dishes'' = Inr d"
      and b: "d = JUndefined \<or> \<not> isArray d \<or> d = JArr []" by simp_all
    show 1: "dishProperties rq l orders = Fail (Error 400 [Lit ''Order must include a dish''])"
      using g b by (rule dishProperties_no_dish)
    from g 1 show "\<exists>m. run orders_exports_create rq l orders = (Failed (Error 400 m), orders)"
      by (rule bad_dishes_create)
    fix j v
    assume u: "findIndex (\<lambda>x. order_id x = params rq) orders = Some j \<and>
             data_get (body rq) ''id'' = Inr v \<and> \<not> throws v"
    have "dishProperties rq (Some j) orders = Fail (Error 400 [Lit ''Order must include a dish''])"
      using g b by (rule dishProperties_no_dish)
    with g u show "\<exists>m. run orders_exports_update rq l orders = (Failed (Error 400 m), orders)"
      using bad_dishes_update by blast
  qed
  have B: "dishProperties rq l orders =
        Fail (Error 400 [Lit ''Dish '', Interp i,
                         Lit '' must have a quantity that is an integer greater than 0'']) \<and>
      (\<exists>m. run orders_exports_create rq l orders = (Failed (Error 400 m), orders)) \<and>
      (\<forall>j v. findIndex (\<lambda>x. order_id x = params rq) orders = Some j \<and>
             data_get (body rq) ''id'' = Inr v \<and> \<not> throws v \<longrightarrow>
             (\<exists>m. run orders_exports_update rq l orders = (Failed (Error 400 m), orders)))"
    if h: "data_get (body rq) ''dishes'' = Inr (JArr (pre @ bad # post)) \<and>
      (\<forall>x \<in> set pre. line_ok x) \<and> get bad ''quantity'' = Inr q \<and> \<not> quantity_ok q \<and>
      get bad ''id'' = Inr i \<and> \<not> throws i"
  proof (intro conjI allI impI)
    from h have g: "data_get (body rq) ''dishes'' = Inr (JArr (pre @ bad # post))" by simp
    show 1: "dishProperties rq l orders =
        Fail (Error 400 [Lit ''Dish '', Interp i,
                         Lit '' must have a quantity that is an integer greater than 0''])"
      using h dishProperties_bad_line by blast
    from g 1 show "\<exists>m. run orders_exports_create rq l orders = (Failed (Error 400 m), orders)"
      by (rule bad_dishes_create)
    fix j v
    assume u: "findIndex (\<lambda>x. order_id x = params rq) orders = Some j \<and>
             data_get (body rq) ''id'' = Inr v \<and> \<not> throws v"
    have "dishProperties rq (Some j) orders =
        Fail (Error 400 [Lit ''Dish '', Interp i,
                         Lit '' must have a quantity that is an integer greater than 0''])"
      using h dishProperties_bad_line by blast
    with g u show "\<exists>m. run orders_exports_update rq l orders = (Failed (Error 400 m), orders)"
      using bad_dishes_update by blast
  qed
  have C: "run orders_exports_create rq l orders = (Failed e, orders)"
    if "orders_bodyDataHas ''deliverTo'' rq l orders = Next l \<and>
      orders_bodyDataHas ''mobileNumber'' rq l orders = Next l \<and>
      orders_bodyDataHas ''dishes'' rq l orders = Next l \<and>
      dishProperties rq l orders = Fail e"
    using that by (intro dishes_check_reached_create) simp_all
  have D: "run orders_exports_update rq l orders = (Failed e, orders)"
    if "findIndex (\<lambda>x. order_id x = params rq) orders = Some j \<and>
      matchIds rq (Some j) orders = Next (Some j) \<and>
      orderDelivered rq (Some j) orders = Next (Some j) \<and>
      orders_bodyDataHas ''deliverTo'' rq (Some j) orders = Next (Some j) \<and>
      orders_bodyDataHas ''mobileNumber'' rq (Some j) orders = Next (Some j) \<and>
      orders_bodyDataHas ''dishes'' rq (Some j) orders = Next (Some j) \<and>
      orders_bodyDataHas ''status'' rq (Some j) orders = Next (Some j) \<and>
      statusInvalid rq (Some j) orders = Next (Some j) \<and>
      dishProperties rq (Some j) orders = Fail e"
    using that by (intro dishes_check_reached_update [where j = j]) simp_all
  have E: "run orders_exports_create rq l orders =
        (Failed (Error 400 [Lit ''Order must include a '', Interp (JStr ''dishes'')]), orders)"
    if "orders_bodyDataHas ''deliverTo'' rq l orders = Next l \<and>
      orders_bodyDataHas ''mobileNumber'' rq l orders = Next l \<and>
      data_get (body rq) ''dishes'' = Inr d \<and> \<not> truthy d"
    using that by (intro falsy_dishes_create [where d = d]) simp_all
  have F: "run orders_exports_update rq l orders =
        (Failed (Error 400 [Lit ''Order must include a '', Interp (JStr ''dishes'')]), orders)"
    if "findIndex (\<lambda>x. order_id x = params rq) orders = Some j \<and>
      matchIds rq (Some j) orders = Next (Some j) \<and>
      orderDelivered rq (Some j) orders = Next (Some j) \<and>
      orders_bodyDataHas ''deliverTo'' rq (Some j) orders = Next (Some j) \<and>
      orders_bodyDataHas ''mobileNumber'' rq (Some j) orders = Next (Some j) \<and>
      data_get (body rq) ''dishes'' = Inr d \<and> \<not> truthy d"
    using that by (intro falsy_dishes_update [where j = j and d = d]) simp_all
  have G: "run orders_exports_update rq l orders =
        (Failed (Error 404 [Lit ''Order id not found: '', Interp (JStr (params rq))]), orders)"
    if "findIndex (\<lambda>x. order_id x = params rq) orders = None"
    using that by (rule orders_update_missing)
  have I: "orders_bodyDataHas ''dishes'' rq l orders =
        Fail (Error 400 [Lit ''Order must include a '', Interp (JStr ''dishes'')])"
    if "data_get (body rq) ''dishes'' = Inr d \<and> \<not> truthy d"
    using that orders_bodyDataHas_falsy by blast
  have H: "\<exists>d. data_get (body rq) ''dishes'' = Inr d \<and> dishes_ok d"
    if "(\<exists>c r. fst (run orders_exports_create rq l orders) = Replied c r) \<or>
        (\<exists>c r. fst (run orders_exports_update rq l orders) = Replied c r)"
    using that
  proof (elim disjE exE)
    fix c r
    assume "fst (run orders_exports_create rq l orders) = Replied c r"
    then obtain os' where "run orders_exports_create rq l orders = (Replied c r, os')"
      by (cases "run orders_exports_create rq l orders") simp
    then have "dishProperties rq l orders = Next l"
      by (rule orders_create_chain(5))
    then show ?thesis by (rule dishProperties_Next)
  next
    fix c r
    assume "fst (run orders_exports_update rq l orders) = Replied c r"
    then obtain os' where "run orders_exports_update rq l orders = (Replied c r, os')"
      by (cases "run orders_exports_update rq l orders") simp
    then obtain k where "dishProperties rq (Some k) orders = Next (Some k)"
      by (rule orders_update_chain)
    then show ?thesis by (rule dishProperties_Next)
  qed
  have J1: "e = TypeError \<or> (\<exists>m. e = Error 400 m)"
    if "fst (run orders_exports_create rq l orders) = Failed e"
  proof -
    from that obtain os' where "run orders_exports_create rq l orders = (Failed e, os')"
      by (cases "run orders_exports_create rq l orders") simp
    then show ?thesis by (rule orders_create_status)
  qed
  have J2: "e = TypeError \<or> (\<exists>m. e = Error 400 m) \<or> (\<exists>m. e = Error 404 m)"
    if "fst (run orders_exports_update rq l orders) = Failed e"
  proof -
    from that obtain os' where "run orders_exports_update rq l orders = (Failed e, os')"
      by (cases "run orders_exports_update rq l orders") simp
    then show ?thesis by (rule orders_update_status)
  qed
  show ?thesis
    apply (intro conjI)
              apply (rule impI, erule A)
             apply (rule impI, erule B)
            apply (rule impI, erule C)
           apply (rule impI, erule D)
          apply (rule impI, erule E)
         apply (rule impI, erule F)
        apply (rule impI, erule G)
       apply (rule impI, erule I)
      apply (rule impI, erule H)
     apply (rule impI, erule J1)
    apply (rule impI, erule J2)
    done
qed

text \<open>
  A create request without \<open>dishes\<close>, one whose second line has the quantity 0, a valid one,
  and update requests for order 7 with an empty and with a \<open>null\<close> \<open>dishes\<close>, and for the
  id 9, which no order has.
\<close>

theorem dishes_of_an_order_are_checked_witness:
  "dishProperties \<lparr>params = [], body = no_dishes_body\<rparr> None [] =
     Fail (Error 400 [Lit ''Order must include a dish'']) \<and>
   orders_bodyDataHas ''dishes'' \<lparr>params = [], body = no_dishes_body\<rparr> None [] =
     Fail (Error 400 [Lit ''Order must include a '', Interp (JStr ''dishes'')]) \<and>
   run orders_exports_create \<lparr>params = [], body = no_dishes_body\<rparr> None [] =
     (Failed (Error 400 [Lit ''Order must include a '', Interp (JStr ''dishes'')]), []) \<and>
   dishProperties \<lparr>params = [], body = bad_line_body\<rparr> None [] =
     Fail (Error 400 [Lit ''Dish '', Interp (JStr ''5''),
                      Lit '' must have a quantity that is an integer greater than 0'']) \<and>
   run orders_exports_create \<lparr>params = [], body = bad_line_body\<rparr> None [] =
     (Failed (Error 400 [Lit ''Dish '', Interp (JStr ''5''),
                         Lit '' must have a quantity that is an integer greater than 0'']), []) \<and>
   run orders_exports_update \<lparr>params = ''7'', body = order_update_with (JArr [])\<rparr> None
     [order7 (JStr ''pending'')] =
     (Failed (Error 400 [Lit ''Order must include a dish'']), [order7 (JStr ''pending'')]) \<and>
   run orders_exports_update \<lparr>params = ''7'', body = order_update_with JNull\<rparr> None
     [order7 (JStr ''pending'')] =
     (Failed (Error 400 [Lit ''Order must include a '', Interp (JStr ''dishes'')]),
      [order7 (JStr ''pending'')]) \<and>
   run orders_exports_update \<lparr>params = ''9'', body = order_update_with (JArr [])\<rparr> None
     [order8] =
     (Failed (Error 404 [Lit ''Order id not found: '', Interp (JStr ''9'')]), [order8]) \<and>
   (\<exists>m. run orders_exports_update \<lparr>params = ''7'', body = order_update_with (JArr [])\<rparr> None
          [order7 (JStr ''pending'')] = (Failed (Error 400 m), [order7 (JStr ''pending'')])) \<and>
   (\<exists>d. data_get order_body ''dishes'' = Inr d \<and> dishes_ok d)"
proof -
  let ?none = "\<lparr>params = [], body = no_dishes_body\<rparr>"
  let ?bad = "\<lparr>params = [], body = bad_line_body\<rparr>"
  let ?good = "\<lparr>params = [], body = order_body\<rparr>"
  let ?empty = "\<lparr>params = ''7'', body = order_update_with (JArr [])\<rparr>"
  let ?null = "\<lparr>params = ''7'', body = order_update_with JNull\<rparr>"
  let ?gone = "\<lparr>params = ''9'', body = order_update_with (JArr [])\<rparr>"
  let ?os = "[order7 (JStr ''pending'')]"
  let ?l4 = "JObj [(''id'', JStr ''4''), (''quantity'', JNum (Finite 2))]"
  let ?l5 = "JObj [(''id'', JStr ''5''), (''quantity'', JNum (Finite 0))]"
  let ?l6 = "JObj [(''id'', JStr ''6'')]"
  let ?dish5 = "Error 400 [Lit ''Dish '', Interp (JStr ''5''),
                           Lit '' must have a quantity that is an integer greater than 0'']"
  have n: "data_get (body ?none) ''dishes'' = Inr JUndefined \<and>
           (JUndefined = JUndefined \<or> \<not> isArray JUndefined \<or> JUndefined = JArr [])"
    by code_simp
  have f: "data_get (body ?none) ''dishes'' = Inr JUndefined \<and> \<not> truthy JUndefined"
    by code_simp
  have fc: "orders_bodyDataHas ''deliverTo'' ?none None [] = Next None \<and>
            orders_bodyDataHas ''mobileNumber'' ?none None [] = Next None \<and>
            data_get (body ?none) ''dishes'' = Inr JUndefined \<and> \<not> truthy JUndefined"
    by code_simp
  have b: "data_get (body ?bad) ''dishes'' = Inr (JArr ([?l4] @ ?l5 # [?l6])) \<and>
           (\<forall>x \<in> set [?l4]. line_ok x) \<and> get ?l5 ''quantity'' = Inr (JNum (Finite 0)) \<and>
           \<not> quantity_ok (JNum (Finite 0)) \<and> get ?l5 ''id'' = Inr (JStr ''5'') \<and>
           \<not> throws (JStr ''5'')"
    by code_simp
  have bc: "orders_bodyDataHas ''deliverTo'' ?bad None [] = Next None \<and>
            orders_bodyDataHas ''mobileNumber'' ?bad None [] = Next None \<and>
            orders_bodyDataHas ''dishes'' ?bad None [] = Next None \<and>
            dishProperties ?bad None [] = Fail ?dish5"
    by code_simp
  have ea: "data_get (body ?empty) ''dishes'' = Inr (JArr []) \<and>
            (JArr [] = JUndefined \<or> \<not> isArray (JArr []) \<or> JArr [] = JArr [])"
    by code_simp
  have eu: "findIndex (\<lambda>x. order_id x = params ?empty) ?os = Some 0 \<and>
            data_get (body ?empty) ''id'' = Inr JUndefined \<and> \<not> throws JUndefined"
    by code_simp
  have ed: "findIndex (\<lambda>x. order_id x = params ?empty) ?os = Some 0 \<and>
            matchIds ?empty (Some 0) ?os = Next (Some 0) \<and>
            orderDelivered ?empty (Some 0) ?os = Next (Some 0) \<and>
            orders_bodyDataHas ''deliverTo'' ?empty (Some 0) ?os = Next (Some 0) \<and>
            orders_bodyDataHas ''mobileNumber'' ?empty (Some 0) ?os = Next (Some 0) \<and>
            orders_bodyDataHas ''dishes'' ?empty (Some 0) ?os = Next (Some 0) \<and>
            orders_bodyDataHas ''status'' ?empty (Some 0) ?os = Next (Some 0) \<and>
            statusInvalid ?empty (Some 0) ?os = Next (Some 0) \<and>
            dishProperties ?empty (Some 0) ?os =
              Fail (Error 400 [Lit ''Order must include a dish''])"
    by code_simp
  have nu: "findIndex (\<lambda>x. order_id x = params ?null) ?os = Some 0 \<and>
            matchIds ?null (Some 0) ?os = Next (Some 0) \<and>
            orderDelivered ?null (Some 0) ?os = Next (Some 0) \<and>
            orders_bodyDataHas ''deliverTo'' ?null (Some 0) ?os = Next (Some 0) \<and>
            orders_bodyDataHas ''mobileNumber'' ?null (Some 0) ?os = Next (Some 0) \<and>
            data_get (body ?null) ''dishes'' = Inr JNull \<and> \<not> truthy JNull"
    by code_simp
  have g: "findIndex (\<lambda>x. order_id x = params ?gone) [order8] = None"
    by code_simp
  have s: "fst (run orders_exports_create ?good None []) =
             Replied 201 (Some (order8\<lparr>order_id := ''1''\<rparr>))"
    by code_simp
  note t = dishes_of_an_order_are_checked
  from t [where rq = ?none and d = JUndefined and l = None and orders = "[]",
      THEN conjunct1, rule_format, OF n]
  have 1: "dishProperties ?none None [] = Fail (Error 400 [Lit ''Order must include a dish''])"
    by (rule conjunct1)
  from t [where rq = ?none and d = JUndefined and l = None and orders = "[]",
      THEN conjunct2, THEN conjunct2, THEN conjunct2, THEN conjunct2, THEN conjunct2, THEN conjunct2, THEN conjunct2, THEN conjunct1, rule_format, OF f]
  have 2: "orders_bodyDataHas ''dishes'' ?none None [] =
             Fail (Error 400 [Lit ''Order must include a '', Interp (JStr ''dishes'')])" .
  from t [where rq = ?none and d = JUndefined and l = None and orders = "[]",
      THEN conjunct2, THEN conjunct2, THEN conjunct2, THEN conjunct2, THEN conjunct1, rule_format, OF fc]
  have 3: "run orders_exports_create ?none None [] =
             (Failed (Error 400 [Lit ''Order must include a '', Interp (JStr ''dishes'')]), [])" .
  from t [where rq = ?bad and l = None and orders = "[]" and pre = "[?l4]" and bad = ?l5
      and post = "[?l6]" and q = "JNum (Finite 0)" and i = "JStr ''5''",
      THEN conjunct2, THEN conjunct1, rule_format, OF b]
  have 4: "dishProperties ?bad None [] = Fail ?dish5"
    by (rule conjunct1)
  from t [where rq = ?bad and l = None and orders = "[]" and e = ?dish5,
      THEN conjunct2, THEN conjunct2, THEN conjunct1, rule_format, OF bc]
  have 5: "run orders_exports_create ?bad None [] = (Failed ?dish5, [])" .
  from t [where rq = ?empty and l = None and orders = ?os and j = 0
      and e = "Error 400 [Lit ''Order must include a dish'']",
      THEN conjunct2, THEN conjunct2, THEN conjunct2, THEN conjunct1, rule_format, OF ed]
  have 6: "run orders_exports_update ?empty None ?os =
             (Failed (Error 400 [Lit ''Order must include a dish'']), ?os)" .
  from t [where rq = ?null and l = None and orders = ?os and j = 0 and d = JNull,
      THEN conjunct2, THEN conjunct2, THEN conjunct2, THEN conjunct2, THEN conjunct2, THEN conjunct1, rule_format, OF nu]
  have 7: "run orders_exports_update ?null None ?os =
             (Failed (Error 400 [Lit ''Order must include a '', Interp (JStr ''dishes'')]), ?os)" .
  from t [where rq = ?gone and l = None and orders = "[order8]",
      THEN conjunct2, THEN conjunct2, THEN conjunct2, THEN conjunct2, THEN conjunct2, THEN conjunct2, THEN conjunct1, rule_format, OF g]
  have 8: "run orders_exports_update ?gone None [order8] =
             (Failed (Error 404 [Lit ''Order id not found: '', Interp (JStr ''9'')]), [order8])"
    by simp
  from t [where rq = ?empty and d = "JArr []" and l = None and orders = ?os,
      THEN conjunct1, THEN mp, OF ea]
  have "\<forall>j v. findIndex (\<lambda>x. order_id x = params ?empty) ?os = Some j \<and>
             data_get (body ?empty) ''id'' = Inr v \<and> \<not> throws v \<longrightarrow>
             (\<exists>m. run orders_exports_update ?empty None ?os = (Failed (Error 400 m), ?os))"
    by (rule conjunct2 [THEN conjunct2])
  with eu have 9: "\<exists>m. run orders_exports_update ?empty None ?os = (Failed (Error 400 m), ?os)"
    by blast
  from s have "(\<exists>c r. fst (run orders_exports_create ?good None []) = Replied c r) \<or>
               (\<exists>c r. fst (run orders_exports_update ?good None []) = Replied c r)"
    by blast
  from t [where rq = ?good and l = None and orders = "[]",
      THEN conjunct2, THEN conjunct2, THEN conjunct2, THEN conjunct2, THEN conjunct2, THEN conjunct2, THEN conjunct2, THEN conjunct2, THEN conjunct1, THEN mp, OF this]
  have 10: "\<exists>d. data_get order_body ''dishes'' = Inr d \<and> dishes_ok d"
    by simp
  from 1 2 3 4 5 6 7 8 9 10 show ?thesis by blast
qed

text \<open>
  A create request with \<open>deliverTo\<close> and \<open>mobileNumber\<close> but no \<open>dishes\<close> is refused by the
  presence check: the message is \<open>Order must include a dishes\<close>.
\<close>

theorem missing_dishes_has_another_message:
  "data_get no_dishes_body ''dishes'' = Inr JUndefined \<and>
   run orders_exports_create \<lparr>params = [], body = no_dishes_body\<rparr> None [] =
     (Failed (Error 400 [Lit ''Order must include a '', Interp (JStr ''dishes'')]), []) \<and>
   render [Lit ''Order must include a '', Interp (JStr ''dishes'')] =
     Some ''Order must include a dishes'' \<and>
   render [Lit ''Order must include a '', Interp (JStr ''dishes'')] \<noteq>
     Some ''Order must include a dish''"
  by code_simp

end
